theory Spec2Isabelle
  imports Main
begin

section \<open>Data model of the word-sequence puzzle hook\<close>

text \<open>
  The development embeds \<^verbatim>\<open>src/frontend/src/hooks/gameHooks.ts\<close>: the React hook
  that owns the user-interface state of the puzzle and drives the core engine
  (\<^verbatim>\<open>GameLogic\<close>), the storage module and the level fetch.  Every
  \<^verbatim>\<open>useState\<close> cell of the hook is a field of the record \<open>HookState\<close>; every
  handler and effect is a function from the state of the render it closes over to the
  state after its setters have been applied, in the order the source calls them.
  Timer callbacks are separate functions; values read from storage or from the network
  are arguments.  The storage and date helpers are taken to return normally; a failing
  fetch is one of the outcomes of the load.
\<close>

datatype DifficultyLevel = Normal | Hard | Impossible

definition difficulties :: "DifficultyLevel list" where
  "difficulties = [Normal, Hard, Impossible]"

fun difficultyName :: "DifficultyLevel \<Rightarrow> string" where
  "difficultyName Normal = ''normal''"
| "difficultyName Hard = ''hard''"
| "difficultyName Impossible = ''impossible''"

record CellCoordinates =
  row :: int
  col :: int

type_synonym Grid = "string list list"

type_synonym Move = "CellCoordinates \<times> CellCoordinates"

text \<open>A calendar day; the hook only passes it on to the storage and date helpers.\<close>

type_synonym Date = nat

record HistoryEntry =
  move :: Move
  wordsFormedByMove :: "string list"
  gridAfterMove :: Grid

text \<open>
  A node of the exploration tree: the swap that leads to it (absent at the root), the
  words that swap forms, the greatest depth reachable below it and the child moves.
\<close>

datatype ExplorationNodeData =
  ExplorationNode
    (nd_move: "Move option")
    (nd_wordsFormed: "string list")
    (nd_maxDepthReached: nat)
    (nd_nextMoves: "ExplorationNodeData list")

text \<open>
  The level payload is parsed JSON that TypeScript only \<^emph>\<open>declares\<close> to be a
  \<^verbatim>\<open>GameData\<close>.  The load code tests the field \<^verbatim>\<open>initialGrid\<close> with
  \<^verbatim>\<open>!x\<close> and \<^verbatim>\<open>Array.isArray(x)\<close>, so the field is one of: a falsy value
  (missing, \<^verbatim>\<open>null\<close>, \<^verbatim>\<open>0\<close>, the empty string), a truthy value that is not an
  array, or an array, here of rows of cells.
\<close>

datatype 'a jsfield = Falsy | TruthyNonArray | ArrayValue 'a

record GameData =
  initialGrid :: "Grid jsfield"
  explorationTree :: ExplorationNodeData
  wordLength :: nat
  maxDepthReached :: nat

record CoreGameState =
  cs_grid :: Grid
  cs_currentPossibleMoves :: "ExplorationNodeData list"
  cs_currentDepth :: nat
  cs_history :: "HistoryEntry list"
  cs_hasDeviated :: bool
  cs_turnFailedAttempts :: nat
  cs_isGameOver :: bool
  cs_gameData :: GameData

text \<open>The saved-progress record that \<^verbatim>\<open>storage.loadInProgressState\<close> returns.\<close>

record SavedProgress =
  sp_grid :: Grid
  sp_history :: "HistoryEntry list"
  sp_currentDepth :: nat
  sp_hasDeviated :: bool
  sp_turnFailedAttempts :: nat

record LevelCompletionSummary =
  sm_history :: "HistoryEntry list"
  sm_score :: nat
  sm_playerWords :: "string list"
  sm_maxScore :: nat
  sm_optimalPathWords :: "string list"
  sm_difficultyForSummary :: DifficultyLevel
  sm_finalGrid :: "Grid jsfield"

text \<open>One difficulty's entry of the daily progress record kept by the storage module.\<close>

record DailyEntry =
  de_completed :: bool
  de_summary :: "LevelCompletionSummary option"

type_synonym DailyProgressData = "DifficultyLevel \<Rightarrow> DailyEntry option"

record LevelResultData =
  rd_history :: "HistoryEntry list"
  rd_score :: nat
  rd_maxScore :: nat
  rd_optimalPathWords :: "string list"
  rd_levelCompleted :: bool

section \<open>The core engine \<open>GameLogic\<close>\<close>

text \<open>
  The class \<^verbatim>\<open>GameLogic\<close> (\<^verbatim>\<open>../core/gameLogic\<close>) and the helper
  \<^verbatim>\<open>areAdjacent\<close> (\<^verbatim>\<open>../utils/gameHelpers\<close>) are imported by the hook and are
  not part of the source file.  The definitions of this section follow the
  specification's description of them.
\<close>

text \<open>
  Modelled from the spec: \<^verbatim>\<open>areAdjacent\<close> of \<^verbatim>\<open>utils/gameHelpers\<close>.  Two
  coordinates are adjacent iff they differ by exactly 1 in exactly one axis.
\<close>

definition areAdjacent :: "CellCoordinates \<Rightarrow> CellCoordinates \<Rightarrow> bool" where
  "areAdjacent a b =
     ((\<bar>row a - row b\<bar> = 1 \<and> col a = col b) \<or> (row a = row b \<and> \<bar>col a - col b\<bar> = 1))"

text \<open>
  Modelled from the spec: the engine instance held in \<^verbatim>\<open>gameLogicRef\<close>.  It owns
  the \<open>CoreGameState\<close> (absent before a level is loaded) and the pointer into the
  exploration tree, kept as the path of nodes from the current node up to the root.
\<close>

record GameLogic =
  gl_state :: "CoreGameState option"
  gl_path :: "ExplorationNodeData list"

text \<open>
  Modelled from the spec: the results of \<^verbatim>\<open>performSwap\<close> and \<^verbatim>\<open>undoLastMove\<close>,
  with the fields the hook reads.
\<close>

record SwapResult =
  success :: bool
  newState :: "CoreGameState option"
  wordsFormed :: "string list option"
  moveDetails :: "Move option"
  message :: "string option"

record UndoResult =
  u_success :: bool
  u_newState :: "CoreGameState option"
  u_undoneMove :: "Move option"

text \<open>Modelled from the spec: a new engine holds no level.\<close>

definition GameLogic_new :: GameLogic where
  "GameLogic_new = \<lparr>gl_state = None, gl_path = []\<rparr>"

text \<open>
  Modelled from the spec: the grid of a payload; the hook hands the engine only payloads
  whose initial grid is an array.
\<close>

fun gridOfField :: "Grid jsfield \<Rightarrow> Grid" where
  "gridOfField (ArrayValue g) = g"
| "gridOfField _ = []"

text \<open>Modelled from the spec: the fresh state at the root of the tree.\<close>

definition freshState :: "GameData \<Rightarrow> CoreGameState" where
  "freshState gd =
     \<lparr>cs_grid = gridOfField (initialGrid gd),
      cs_currentPossibleMoves = nd_nextMoves (explorationTree gd),
      cs_currentDepth = 0,
      cs_history = [],
      cs_hasDeviated = False,
      cs_turnFailedAttempts = 0,
      cs_isGameOver = (nd_nextMoves (explorationTree gd) = []),
      cs_gameData = gd\<rparr>"

text \<open>
  Modelled from the spec: a candidate swap matches a child move if the unordered cell
  pair equals the child's recorded pair.
\<close>

definition sameMove :: "Move \<Rightarrow> Move \<Rightarrow> bool" where
  "sameMove m n = ((fst m = fst n \<and> snd m = snd n) \<or> (fst m = snd n \<and> snd m = fst n))"

definition matchesMove :: "Move \<Rightarrow> ExplorationNodeData \<Rightarrow> bool" where
  "matchesMove m n = (case nd_move n of None \<Rightarrow> False | Some k \<Rightarrow> sameMove k m)"

definition findChild :: "ExplorationNodeData list \<Rightarrow> Move \<Rightarrow> ExplorationNodeData option" where
  "findChild children m = find (matchesMove m) children"

text \<open>Modelled from the spec: the pure swap-and-copy operation of the grid model.\<close>

definition inGrid :: "Grid \<Rightarrow> CellCoordinates \<Rightarrow> bool" where
  "inGrid g c = (0 \<le> row c \<and> nat (row c) < length g \<and> 0 \<le> col c \<and> nat (col c) < length (g ! nat (row c)))"

definition cellAt :: "Grid \<Rightarrow> CellCoordinates \<Rightarrow> string" where
  "cellAt g c = g ! nat (row c) ! nat (col c)"

definition setCell :: "Grid \<Rightarrow> CellCoordinates \<Rightarrow> string \<Rightarrow> Grid" where
  "setCell g c v = g[nat (row c) := (g ! nat (row c))[nat (col c) := v]]"

definition swapCells :: "Grid \<Rightarrow> CellCoordinates \<Rightarrow> CellCoordinates \<Rightarrow> Grid" where
  "swapCells g a b =
     (if inGrid g a \<and> inGrid g b then setCell (setCell g a (cellAt g b)) b (cellAt g a) else g)"

text \<open>
  Modelled from the spec: the wording of the rejection messages.  The hook compares the
  message with the literal \<^verbatim>\<open>"Game is over."\<close>; the spec asks for an
  adjacency-specific message and for a message naming the reason of a swap that matches
  no child move, without giving their text.
\<close>

definition gameOverMessage :: string where
  "gameOverMessage = ''Game is over.''"

definition notAdjacentMessage :: string where
  "notAdjacentMessage = ''Cells are not adjacent.''"

definition wrongMoveMessage :: string where
  "wrongMoveMessage = ''No word is formed by this move.''"

text \<open>Modelled from the spec: a rejection is \<^verbatim>\<open>{success: false, message}\<close>.\<close>

definition rejected :: "string option \<Rightarrow> SwapResult" where
  "rejected m = \<lparr>success = False, newState = None, wordsFormed = None, moveDetails = None, message = m\<rparr>"

text \<open>
  Modelled from the spec: \<open>turnFailedAttempts\<close> counts the consecutive rejected swap
  attempts; a rejected attempt changes nothing else.
\<close>

definition countFailedAttempt :: "GameLogic \<Rightarrow> GameLogic" where
  "countFailedAttempt gl =
     gl\<lparr>gl_state := map_option (\<lambda>s. s\<lparr>cs_turnFailedAttempts := cs_turnFailedAttempts s + 1\<rparr>) (gl_state gl)\<rparr>"

text \<open>
  Modelled from the spec: \<^verbatim>\<open>performSwap\<close> fails if the machine is already
  game-over, if the cells are not adjacent, or if the swap matches no child move of the
  current node.  On success it produces the swapped grid, appends a history entry,
  advances the current node, increments the depth, and sets game-over if the new node is
  a leaf.
\<close>

definition GameLogic_performSwap ::
    "CellCoordinates \<Rightarrow> CellCoordinates \<Rightarrow> GameLogic \<Rightarrow> SwapResult \<times> GameLogic" where
  "GameLogic_performSwap a b gl =
     (case gl_state gl of
        None \<Rightarrow> (rejected None, gl)
      | Some s \<Rightarrow>
          if cs_isGameOver s then (rejected (Some gameOverMessage), countFailedAttempt gl)
          else if \<not> areAdjacent a b then (rejected (Some notAdjacentMessage), countFailedAttempt gl)
          else
            (case findChild (cs_currentPossibleMoves s) (a, b) of
               None \<Rightarrow> (rejected (Some wrongMoveMessage), countFailedAttempt gl)
             | Some n \<Rightarrow>
                 let g = swapCells (cs_grid s) a b;
                     s' = s\<lparr>cs_grid := g,
                            cs_currentPossibleMoves := nd_nextMoves n,
                            cs_currentDepth := cs_currentDepth s + 1,
                            cs_history := cs_history s @
                              [\<lparr>move = (a, b), wordsFormedByMove = nd_wordsFormed n, gridAfterMove = g\<rparr>],
                            cs_turnFailedAttempts := 0,
                            cs_isGameOver := (nd_nextMoves n = [])\<rparr>
                 in (\<lparr>success = True, newState = Some s', wordsFormed = Some (nd_wordsFormed n),
                      moveDetails = Some (a, b), message = None\<rparr>,
                     \<lparr>gl_state = Some s', gl_path = n # gl_path gl\<rparr>)))"

text \<open>Modelled from the spec: \<^verbatim>\<open>getCurrentGameState\<close> is a pure snapshot accessor.\<close>

definition GameLogic_getCurrentGameState :: "GameLogic \<Rightarrow> CoreGameState option" where
  "GameLogic_getCurrentGameState gl = gl_state gl"

text \<open>
  Modelled from the spec: \<^verbatim>\<open>forceGameOver\<close> sets \<open>isGameOver\<close> and alters nothing
  else.
\<close>

definition GameLogic_forceGameOver :: "GameLogic \<Rightarrow> GameLogic" where
  "GameLogic_forceGameOver gl =
     gl\<lparr>gl_state := map_option (\<lambda>s. s\<lparr>cs_isGameOver := True\<rparr>) (gl_state gl)\<rparr>"

text \<open>
  Modelled from the spec: replaying a saved history walks the tree edge by edge from
  the root; a move that matches no child makes the replay fail.
\<close>

fun replayPath :: "ExplorationNodeData list \<Rightarrow> HistoryEntry list \<Rightarrow> ExplorationNodeData list option" where
  "replayPath p [] = Some p"
| "replayPath [] (h # hs) = None"
| "replayPath (n # p) (h # hs) =
     (case findChild (nd_nextMoves n) (move h) of
        None \<Rightarrow> None
      | Some c \<Rightarrow> replayPath (c # n # p) hs)"

text \<open>
  Modelled from the spec: \<^verbatim>\<open>loadLevel\<close> restores the saved progress when its
  history replays against the tree, and starts fresh at the root otherwise.
\<close>

definition GameLogic_loadLevel ::
    "GameData \<Rightarrow> SavedProgress option \<Rightarrow> CoreGameState \<times> GameLogic" where
  "GameLogic_loadLevel gd saved =
     (let fresh = (freshState gd, \<lparr>gl_state = Some (freshState gd), gl_path = [explorationTree gd]\<rparr>)
      in case saved of
           None \<Rightarrow> fresh
         | Some sp \<Rightarrow>
             (case replayPath [explorationTree gd] (sp_history sp) of
                None \<Rightarrow> fresh
              | Some p \<Rightarrow>
                  let s = \<lparr>cs_grid = sp_grid sp,
                           cs_currentPossibleMoves = nd_nextMoves (hd p),
                           cs_currentDepth = sp_currentDepth sp,
                           cs_history = sp_history sp,
                           cs_hasDeviated = sp_hasDeviated sp,
                           cs_turnFailedAttempts = sp_turnFailedAttempts sp,
                           cs_isGameOver = (nd_nextMoves (hd p) = []),
                           cs_gameData = gd\<rparr>
                  in (s, \<lparr>gl_state = Some s, gl_path = p\<rparr>)))"

text \<open>Modelled from the spec: \<^verbatim>\<open>resetLevel\<close> returns to the root for the same level.\<close>

definition GameLogic_resetLevel :: "GameLogic \<Rightarrow> CoreGameState option \<times> GameLogic" where
  "GameLogic_resetLevel gl =
     (case gl_state gl of
        None \<Rightarrow> (None, gl)
      | Some s \<Rightarrow>
          (Some (freshState (cs_gameData s)),
           \<lparr>gl_state = Some (freshState (cs_gameData s)), gl_path = [explorationTree (cs_gameData s)]\<rparr>))"

text \<open>
  Modelled from the spec: \<^verbatim>\<open>undoLastMove\<close> fails on an empty history (and on a
  tree pointer with no parent); otherwise it pops the last entry, moves to the parent
  node, decrements the depth, re-applies the inverse swap and clears game-over.  The
  deviation flag is kept.
\<close>

definition GameLogic_undoLastMove :: "GameLogic \<Rightarrow> UndoResult \<times> GameLogic" where
  "GameLogic_undoLastMove gl =
     (let failed = (\<lparr>u_success = False, u_newState = None, u_undoneMove = None\<rparr>, gl)
      in case gl_state gl of
           None \<Rightarrow> failed
         | Some s \<Rightarrow>
             (case (rev (cs_history s), gl_path gl) of
                (h # hs, n # parent # rest) \<Rightarrow>
                  let s' = s\<lparr>cs_grid := swapCells (cs_grid s) (fst (move h)) (snd (move h)),
                             cs_currentPossibleMoves := nd_nextMoves parent,
                             cs_currentDepth := cs_currentDepth s - 1,
                             cs_history := rev hs,
                             cs_turnFailedAttempts := 0,
                             cs_isGameOver := False\<rparr>
                  in (\<lparr>u_success = True, u_newState = Some s', u_undoneMove = Some (move h)\<rparr>,
                      \<lparr>gl_state = Some s', gl_path = parent # rest\<rparr>)
              | _ \<Rightarrow> failed))"

text \<open>
  Modelled from the spec: \<^verbatim>\<open>setStateForSolutionView\<close> replaces grid, history and
  depth by those of a finished run and marks the state game-over, bypassing tree
  validation.
\<close>

definition GameLogic_setStateForSolutionView ::
    "Grid \<Rightarrow> HistoryEntry list \<Rightarrow> nat \<Rightarrow> GameLogic \<Rightarrow> CoreGameState option \<times> GameLogic" where
  "GameLogic_setStateForSolutionView g h score gl =
     (let st = map_option
                 (\<lambda>s. s\<lparr>cs_grid := g, cs_history := h, cs_currentDepth := score, cs_isGameOver := True\<rparr>)
                 (gl_state gl)
      in (st, gl\<lparr>gl_state := st\<rparr>))"

text \<open>
  Modelled from the spec: the hint is the child move whose subtree reaches the greatest
  depth, the first such move in the node's order; a leaf gives the empty sequence.
\<close>

fun bestChild :: "ExplorationNodeData list \<Rightarrow> ExplorationNodeData option" where
  "bestChild [] = None"
| "bestChild (n # ns) =
     (case bestChild ns of
        None \<Rightarrow> Some n
      | Some k \<Rightarrow> if nd_maxDepthReached k > nd_maxDepthReached n then Some k else Some n)"

definition GameLogic_calculateHintCoordinates :: "GameLogic \<Rightarrow> CellCoordinates list" where
  "GameLogic_calculateHintCoordinates gl =
     (case gl_state gl of
        None \<Rightarrow> []
      | Some s \<Rightarrow>
          (case bestChild (cs_currentPossibleMoves s) of
             None \<Rightarrow> []
           | Some n \<Rightarrow> (case nd_move n of None \<Rightarrow> [] | Some m \<Rightarrow> [fst m, snd m])))"

text \<open>
  Modelled from the spec: the snapshot for saving holds only the data needed to replay
  (no tree pointer).
\<close>

definition GameLogic_getGameStateForSaving :: "GameLogic \<Rightarrow> SavedProgress option" where
  "GameLogic_getGameStateForSaving gl =
     map_option
       (\<lambda>s. \<lparr>sp_grid = cs_grid s, sp_history = cs_history s, sp_currentDepth = cs_currentDepth s,
             sp_hasDeviated = cs_hasDeviated s, sp_turnFailedAttempts = cs_turnFailedAttempts s\<rparr>)
       (gl_state gl)"

section \<open>The state of the hook\<close>

record AnimationState =
  animating :: bool
  anim_from :: "CellCoordinates option"
  anim_to :: "CellCoordinates option"

definition noAnimation :: AnimationState where
  "noAnimation = \<lparr>animating = False, anim_from = None, anim_to = None\<rparr>"

text \<open>
  One field per \<^verbatim>\<open>useState\<close> cell, with the source's names, and the engine held by
  \<^verbatim>\<open>gameLogicRef\<close>.  (The dark-mode preference and the four timer handles are left
  out: no other state depends on them.  A pending timer is the possibility that its
  callback, a function below, runs later.)
\<close>

record HookState =
  loading :: bool
  error :: "string option"
  currentDate :: "Date option"
  difficulty :: DifficultyLevel
  dailyProgress :: "DifficultyLevel \<Rightarrow> bool"
  isDebugMode :: bool
  reloadTrigger :: nat
  gameLogicRef :: GameLogic
  grid :: Grid
  currentPossibleMoves :: "ExplorationNodeData list"
  currentDepth :: nat
  history :: "HistoryEntry list"
  hasDeviated :: bool
  turnFailedAttempts :: nat
  isCoreGameOver :: bool
  coreGameData :: "GameData option"
  selectedCell :: "CellCoordinates option"
  draggedCell :: "CellCoordinates option"
  hoveredCell :: "CellCoordinates option"
  isInvalidMove :: bool
  invalidMoveMessage :: string
  animationState :: AnimationState
  highlightedCells :: "CellCoordinates list"
  wiggleCells :: "CellCoordinates list"
  hintCells :: "CellCoordinates list"
  isDisplayGameOver :: bool
  hasAcknowledgedGameOver :: bool
  showEndGamePanelOverride :: bool
  combinedSummaryData :: "(DifficultyLevel \<times> LevelCompletionSummary option) list"

text \<open>The initial values of the \<^verbatim>\<open>useState\<close> cells (lines 41 to 83).\<close>

definition initialHookState :: HookState where
  "initialHookState =
     \<lparr>loading = True, error = None, currentDate = None, difficulty = Normal,
      dailyProgress = (\<lambda>d. False), isDebugMode = False, reloadTrigger = 0,
      gameLogicRef = GameLogic_new,
      grid = [[]], currentPossibleMoves = [], currentDepth = 0, history = [],
      hasDeviated = False, turnFailedAttempts = 0, isCoreGameOver = False, coreGameData = None,
      selectedCell = None, draggedCell = None, hoveredCell = None,
      isInvalidMove = False, invalidMoveMessage = [],
      animationState = noAnimation,
      highlightedCells = [], wiggleCells = [], hintCells = [],
      isDisplayGameOver = False, hasAcknowledgedGameOver = False,
      showEndGamePanelOverride = False, combinedSummaryData = []\<rparr>"

text \<open>
  JavaScript truthiness of the \<^verbatim>\<open>error\<close> cell (\<^verbatim>\<open>string | null\<close>): \<^verbatim>\<open>null\<close>
  and the empty string are falsy.
\<close>

definition errorSet :: "HookState \<Rightarrow> bool" where
  "errorSet st = (case error st of None \<Rightarrow> False | Some m \<Rightarrow> m \<noteq> [])"

text \<open>\<^verbatim>\<open>grid.length > 0 && grid[0].length > 0\<close>\<close>

definition gridShown :: "Grid \<Rightarrow> bool" where
  "gridShown g = (case g of [] \<Rightarrow> False | r # rs \<Rightarrow> r \<noteq> [])"

text \<open>\<^verbatim>\<open>a || b\<close> on an optional string: the empty string is falsy too.\<close>

definition orElse :: "string option \<Rightarrow> string \<Rightarrow> string" where
  "orElse m d = (case m of None \<Rightarrow> d | Some s \<Rightarrow> if s = [] then d else s)"

text \<open>\<^verbatim>\<open>updateReactStateFromCore\<close> (lines 85 to 105)\<close>

definition updateReactStateFromCore :: "CoreGameState option \<Rightarrow> HookState \<Rightarrow> HookState" where
  "updateReactStateFromCore coreState st =
     (case coreState of
        Some c \<Rightarrow>
          st\<lparr>grid := cs_grid c,
             currentPossibleMoves := cs_currentPossibleMoves c,
             currentDepth := cs_currentDepth c,
             history := cs_history c,
             hasDeviated := cs_hasDeviated c,
             turnFailedAttempts := cs_turnFailedAttempts c,
             isCoreGameOver := cs_isGameOver c,
             coreGameData := Some (cs_gameData c)\<rparr>
      | None \<Rightarrow>
          st\<lparr>grid := [[]],
             currentPossibleMoves := [],
             currentDepth := 0,
             history := [],
             hasDeviated := False,
             turnFailedAttempts := 0,
             isCoreGameOver := False,
             coreGameData := None\<rparr>)"

text \<open>
  \<^verbatim>\<open>livePlayerUniqueWordsFound\<close> (lines 114 to 118): the words of the history in
  the order of their first occurrence, as \<^verbatim>\<open>Array.from\<close> lists a \<^verbatim>\<open>Set\<close>.
\<close>

fun addWords :: "string list \<Rightarrow> string list \<Rightarrow> string list" where
  "addWords acc [] = acc"
| "addWords acc (w # ws) = addWords (if w \<in> set acc then acc else acc @ [w]) ws"

definition livePlayerUniqueWordsFound :: "HookState \<Rightarrow> string list" where
  "livePlayerUniqueWordsFound st = foldl (\<lambda>acc h. addWords acc (wordsFormedByMove h)) [] (history st)"

text \<open>\<^verbatim>\<open>liveMaxDepthAttainable\<close> and \<^verbatim>\<open>wordLength\<close> (lines 120 and 121)\<close>

definition liveMaxDepthAttainable :: "HookState \<Rightarrow> nat" where
  "liveMaxDepthAttainable st = (case coreGameData st of None \<Rightarrow> 0 | Some gd \<Rightarrow> maxDepthReached gd)"

definition liveWordLength :: "HookState \<Rightarrow> nat" where
  "liveWordLength st =
     (case coreGameData st of None \<Rightarrow> 4 | Some gd \<Rightarrow> if wordLength gd = 0 then 4 else wordLength gd)"

text \<open>
  \<^verbatim>\<open>liveOptimalPathWords\<close> (lines 107 to 112).  \<^verbatim>\<open>findLongestWordChain\<close> is a
  helper of \<^verbatim>\<open>utils/gameHelpers\<close>; it is an argument here.
\<close>

definition liveOptimalPathWords ::
    "(ExplorationNodeData \<Rightarrow> HistoryEntry list \<Rightarrow> string list) \<Rightarrow> HookState \<Rightarrow> string list" where
  "liveOptimalPathWords findLongestWordChain st =
     (case coreGameData st of
        None \<Rightarrow> []
      | Some gd \<Rightarrow> findLongestWordChain (explorationTree gd) (history st))"

section \<open>Swaps\<close>

text \<open>\<^verbatim>\<open>triggerWiggle\<close> (lines 123 to 130); its timer callback is \<open>wiggleTimeout\<close>.\<close>

definition triggerWiggle :: "CellCoordinates \<Rightarrow> CellCoordinates \<Rightarrow> HookState \<Rightarrow> HookState" where
  "triggerWiggle cell1 cell2 st = st\<lparr>wiggleCells := [cell1, cell2]\<rparr>"

definition wiggleTimeout :: "HookState \<Rightarrow> HookState" where
  "wiggleTimeout st = st\<lparr>wiggleCells := []\<rparr>"

text \<open>The guard of \<^verbatim>\<open>performSwap\<close> (line 388).\<close>

definition swapIgnored :: "HookState \<Rightarrow> bool" where
  "swapIgnored st =
     (showEndGamePanelOverride st \<or> isDisplayGameOver st \<or> coreGameData st = None \<or>
      animating (animationState st) \<or> loading st \<or> errorSet st)"

text \<open>
  What \<^verbatim>\<open>performSwap\<close> does with the engine's answer (lines 393 to 427).  The
  flag \<^verbatim>\<open>isCoreGameOver\<close> is the one of the render the callback closes over, that is,
  of the state before the swap.
\<close>

definition swapSucceeded :: "SwapResult \<Rightarrow> bool" where
  "swapSucceeded r = (success r \<and> newState r \<noteq> None \<and> wordsFormed r \<noteq> None \<and> moveDetails r \<noteq> None)"

definition performSwap_onResult ::
    "CellCoordinates \<Rightarrow> CellCoordinates \<Rightarrow> SwapResult \<Rightarrow> GameLogic \<Rightarrow> HookState \<Rightarrow> HookState" where
  "performSwap_onResult cell1 cell2 r gl st =
     (let st1 = updateReactStateFromCore
                  (case newState r of Some s \<Rightarrow> Some s | None \<Rightarrow> GameLogic_getCurrentGameState gl)
                  (st\<lparr>gameLogicRef := gl\<rparr>)
      in if swapSucceeded r then
           st1\<lparr>animationState := \<lparr>animating = True, anim_from = Some cell1, anim_to = Some cell2\<rparr>,
               isInvalidMove := False, invalidMoveMessage := [], highlightedCells := []\<rparr>
         else if \<not> isCoreGameOver st then
           (let st2 = st1\<lparr>isInvalidMove := True, invalidMoveMessage := orElse (message r) ''Invalid Move!''\<rparr>
            in if message r \<noteq> Some ''Game is over.'' then triggerWiggle cell1 cell2 st2 else st2)
         else st1)"

text \<open>\<^verbatim>\<open>performSwap\<close> (lines 386 to 430)\<close>

definition performSwap :: "CellCoordinates \<Rightarrow> CellCoordinates \<Rightarrow> HookState \<Rightarrow> HookState" where
  "performSwap cell1 cell2 st =
     (if swapIgnored st then st
      else
        (let st0 = st\<lparr>selectedCell := None, draggedCell := None, hoveredCell := None\<rparr>;
             res = GameLogic_performSwap cell1 cell2 (gameLogicRef st)
         in performSwap_onResult cell1 cell2 (fst res) (snd res) st0))"

text \<open>
  The callback of the 300 ms timer a successful swap starts (lines 401 to 420);
  \<open>cells\<close> are the coordinates \<^verbatim>\<open>findWordCoordinates\<close> found for the words formed.
  The callback of the 1500 ms timer it starts in turn is \<open>highlightTimeout\<close>.
\<close>

definition swapAnimationTimeout :: "CellCoordinates list \<Rightarrow> HookState \<Rightarrow> HookState" where
  "swapAnimationTimeout cells st = st\<lparr>highlightedCells := cells, animationState := noAnimation\<rparr>"

definition highlightTimeout :: "HookState \<Rightarrow> HookState" where
  "highlightTimeout st = st\<lparr>highlightedCells := []\<rparr>"

definition hintTimeout :: "HookState \<Rightarrow> HookState" where
  "hintTimeout st = st\<lparr>hintCells := []\<rparr>"

definition sameCell :: "CellCoordinates \<Rightarrow> CellCoordinates \<Rightarrow> bool" where
  "sameCell a b = (row a = row b \<and> col a = col b)"

text \<open>\<^verbatim>\<open>handleDragStart\<close> (lines 432 to 438)\<close>

definition handleDragStart :: "CellCoordinates \<Rightarrow> HookState \<Rightarrow> HookState" where
  "handleDragStart cellCoords st =
     (if showEndGamePanelOverride st \<or> isDisplayGameOver st \<or> animating (animationState st) \<or>
         coreGameData st = None \<or> loading st \<or> errorSet st
      then st
      else st\<lparr>draggedCell := Some cellCoords, selectedCell := None, isInvalidMove := False,
              invalidMoveMessage := [], hoveredCell := None, highlightedCells := [],
              wiggleCells := [], hintCells := []\<rparr>)"

text \<open>\<^verbatim>\<open>handleDragEnter\<close>, \<^verbatim>\<open>handleDragLeave\<close>, \<^verbatim>\<open>handleDragEnd\<close> (lines 440 to 458)\<close>

definition handleDragEnter :: "CellCoordinates \<Rightarrow> HookState \<Rightarrow> HookState" where
  "handleDragEnter cellCoords st =
     (if isDisplayGameOver st \<or> showEndGamePanelOverride st \<or> animating (animationState st) then st
      else
        (case draggedCell st of
           None \<Rightarrow> st
         | Some d \<Rightarrow>
             if \<not> sameCell d cellCoords
             then (if areAdjacent d cellCoords then st\<lparr>hoveredCell := Some cellCoords\<rparr>
                   else st\<lparr>hoveredCell := None\<rparr>)
             else st))"

definition handleDragLeave :: "CellCoordinates \<Rightarrow> HookState \<Rightarrow> HookState" where
  "handleDragLeave cellCoords st =
     (if isDisplayGameOver st \<or> showEndGamePanelOverride st \<or> animating (animationState st) then st
      else
        (case hoveredCell st of
           None \<Rightarrow> st
         | Some h \<Rightarrow> if sameCell h cellCoords then st\<lparr>hoveredCell := None\<rparr> else st))"

definition handleDragEnd :: "HookState \<Rightarrow> HookState" where
  "handleDragEnd st =
     (if isDisplayGameOver st \<or> showEndGamePanelOverride st \<or> animating (animationState st) then st
      else st\<lparr>draggedCell := None, hoveredCell := None\<rparr>)"

text \<open>
  \<^verbatim>\<open>handleDrop\<close> (lines 460 to 478).  The cells it clears before it calls
  \<^verbatim>\<open>performSwap\<close> are not read by \<^verbatim>\<open>performSwap\<close>, which closes over the same
  render.
\<close>

definition handleDrop :: "CellCoordinates \<Rightarrow> HookState \<Rightarrow> HookState" where
  "handleDrop targetCellCoords st =
     (case draggedCell st of
        None \<Rightarrow> st\<lparr>draggedCell := None, hoveredCell := None\<rparr>
      | Some sourceCell \<Rightarrow>
          if showEndGamePanelOverride st \<or> isDisplayGameOver st \<or> loading st \<or>
             animating (animationState st) \<or> errorSet st
          then st\<lparr>draggedCell := None, hoveredCell := None\<rparr>
          else
            (let st1 = st\<lparr>hoveredCell := None\<rparr>
             in if sameCell sourceCell targetCellCoords then st1\<lparr>draggedCell := None\<rparr>
                else if \<not> areAdjacent sourceCell targetCellCoords then
                  (if \<not> isCoreGameOver st
                   then triggerWiggle sourceCell targetCellCoords
                          (st1\<lparr>isInvalidMove := True, invalidMoveMessage := ''Must swap adjacent cells.''\<rparr>)
                   else st1)\<lparr>draggedCell := None\<rparr>
                else (performSwap sourceCell targetCellCoords st1)\<lparr>draggedCell := None\<rparr>))"

text \<open>\<^verbatim>\<open>handleCellClick\<close> (lines 480 to 496)\<close>

definition handleCellClick :: "CellCoordinates \<Rightarrow> HookState \<Rightarrow> HookState" where
  "handleCellClick cellCoords st =
     (if showEndGamePanelOverride st \<or> isDisplayGameOver st \<or> animating (animationState st) \<or>
         coreGameData st = None \<or> draggedCell st \<noteq> None \<or> loading st \<or> errorSet st
      then st
      else
        (let st1 = (if \<not> isCoreGameOver st then st\<lparr>isInvalidMove := False, invalidMoveMessage := []\<rparr> else st)
         in case selectedCell st of
              None \<Rightarrow> st1\<lparr>selectedCell := Some cellCoords\<rparr>
            | Some firstCell \<Rightarrow>
                if sameCell firstCell cellCoords then st1\<lparr>selectedCell := None\<rparr>
                else if areAdjacent firstCell cellCoords
                then (performSwap firstCell cellCoords st1)\<lparr>selectedCell := None\<rparr>
                else st1\<lparr>selectedCell := Some cellCoords\<rparr>))"

section \<open>Reset, undo, difficulty, hints, summaries\<close>

text \<open>
  \<^verbatim>\<open>handleReset\<close> (lines 498 to 520).  It also removes the saved in-progress record
  from storage, which is outside the hook's state.
\<close>

definition handleReset :: "HookState \<Rightarrow> HookState" where
  "handleReset st =
     (if currentDate st = None \<or> coreGameData st = None \<or> showEndGamePanelOverride st \<or>
         animating (animationState st) \<or> errorSet st
      then st
      else
        (let res = GameLogic_resetLevel (gameLogicRef st)
         in (updateReactStateFromCore (fst res) (st\<lparr>gameLogicRef := snd res\<rparr>))
              \<lparr>selectedCell := None, draggedCell := None, hoveredCell := None,
               isInvalidMove := False, invalidMoveMessage := [],
               animationState := noAnimation,
               highlightedCells := [], wiggleCells := [], hintCells := [],
               isDisplayGameOver := False, hasAcknowledgedGameOver := False\<rparr>))"

text \<open>
  \<^verbatim>\<open>handleBack\<close> (lines 522 to 545).  The engine is undone at once; the React
  state follows in the timer callback \<open>undoAnimationTimeout\<close>, 300 ms later.
\<close>

definition handleBack :: "HookState \<Rightarrow> HookState" where
  "handleBack st =
     (if history st = [] \<or> animating (animationState st) \<or> loading st \<or> errorSet st \<or>
         showEndGamePanelOverride st
      then st
      else
        (let res = GameLogic_undoLastMove (gameLogicRef st);
             r = fst res;
             st0 = st\<lparr>gameLogicRef := snd res\<rparr>
         in case (u_success r, u_newState r, u_undoneMove r) of
              (True, Some n, Some m) \<Rightarrow>
                (if isDisplayGameOver st
                 then st0\<lparr>isDisplayGameOver := False, hasAcknowledgedGameOver := False\<rparr>
                 else st0)
                  \<lparr>isInvalidMove := False, invalidMoveMessage := [],
                   animationState := \<lparr>animating = True, anim_from = Some (fst m), anim_to = Some (snd m)\<rparr>,
                   highlightedCells := [], selectedCell := None, draggedCell := None,
                   hoveredCell := None, wiggleCells := [], hintCells := []\<rparr>
            | _ \<Rightarrow> st0))"

definition undoAnimationTimeout :: "CoreGameState \<Rightarrow> HookState \<Rightarrow> HookState" where
  "undoAnimationTimeout n st = (updateReactStateFromCore (Some n) st)\<lparr>animationState := noAnimation\<rparr>"

text \<open>\<^verbatim>\<open>handleCloseGameOver\<close> (lines 547 to 550)\<close>

definition handleCloseGameOver :: "HookState \<Rightarrow> HookState" where
  "handleCloseGameOver st = st\<lparr>hasAcknowledgedGameOver := True, showEndGamePanelOverride := False\<rparr>"

text \<open>\<^verbatim>\<open>masterResetGameStates\<close> (lines 167 to 191)\<close>

definition masterResetGameStates :: "HookState \<Rightarrow> HookState" where
  "masterResetGameStates st =
     (updateReactStateFromCore None st)
       \<lparr>isInvalidMove := False, invalidMoveMessage := [],
        selectedCell := None, hoveredCell := None, draggedCell := None,
        wiggleCells := [], hintCells := [],
        animationState := noAnimation,
        isDisplayGameOver := False, hasAcknowledgedGameOver := False,
        showEndGamePanelOverride := False, combinedSummaryData := [],
        reloadTrigger := reloadTrigger st + 1\<rparr>"

text \<open>
  \<^verbatim>\<open>handlePlayMode\<close> (lines 552 to 564).  The timer a rejected switch starts calls
  \<open>messageTimeout\<close> after three seconds.
\<close>

definition handlePlayMode :: "DifficultyLevel \<Rightarrow> HookState \<Rightarrow> HookState" where
  "handlePlayMode newDifficulty st =
     (if showEndGamePanelOverride st \<or> difficulty st = newDifficulty \<or>
         animating (animationState st) \<or> errorSet st
      then st
      else if newDifficulty = Hard \<and> \<not> dailyProgress st Normal
      then st\<lparr>invalidMoveMessage := ''Complete Normal mode first!'', isInvalidMove := True\<rparr>
      else if newDifficulty = Impossible \<and> (\<not> dailyProgress st Normal \<or> \<not> dailyProgress st Hard)
      then st\<lparr>invalidMoveMessage := ''Complete Normal & Hard modes first!'', isInvalidMove := True\<rparr>
      else masterResetGameStates (st\<lparr>loading := True, difficulty := newDifficulty\<rparr>))"

definition messageTimeout :: "HookState \<Rightarrow> HookState" where
  "messageTimeout st = st\<lparr>isInvalidMove := False, invalidMoveMessage := []\<rparr>"

text \<open>\<^verbatim>\<open>handleHintButtonClick\<close> (lines 566 to 574); its timer callback is \<open>hintTimeout\<close>.\<close>

definition handleHintButtonClick :: "HookState \<Rightarrow> HookState" where
  "handleHintButtonClick st =
     (if showEndGamePanelOverride st \<or> isDisplayGameOver st \<or> difficulty st = Impossible \<or>
         animating (animationState st) \<or> loading st \<or> \<not> gridShown (grid st) \<or>
         hintCells st \<noteq> [] \<or> errorSet st \<or> coreGameData st = None
      then st
      else
        (let coordinates = GameLogic_calculateHintCoordinates (gameLogicRef st)
         in if coordinates \<noteq> [] then st\<lparr>hintCells := coordinates\<rparr> else st))"

text \<open>
  The automatic hint effect (lines 359 to 375).
\<close>

definition autoHintEffect :: "HookState \<Rightarrow> HookState" where
  "autoHintEffect st =
     (if difficulty st = Impossible \<or> errorSet st \<or> coreGameData st = None
      then st\<lparr>hintCells := []\<rparr>
      else if turnFailedAttempts st \<ge> 3 \<and> \<not> isDisplayGameOver st \<and> \<not> showEndGamePanelOverride st \<and>
              \<not> loading st \<and> gridShown (grid st)
      then
        (let coordinates = GameLogic_calculateHintCoordinates (gameLogicRef st)
         in if coordinates \<noteq> [] then st\<lparr>hintCells := coordinates\<rparr> else st)
      else st)"

text \<open>
  \<^verbatim>\<open>handleShowGameSummary\<close> (lines 576 to 588).  \<open>loadedSummaries\<close> is what
  \<^verbatim>\<open>storage.loadAllSummariesForDate\<close> returned, \<open>getFriendlyDate\<close> the date helper.
\<close>

definition handleShowGameSummary ::
    "(Date \<Rightarrow> string) \<Rightarrow> (DifficultyLevel \<times> LevelCompletionSummary option) list \<Rightarrow> HookState \<Rightarrow> HookState" where
  "handleShowGameSummary getFriendlyDate loadedSummaries st =
     (case currentDate st of
        None \<Rightarrow> st
      | Some d \<Rightarrow>
          if loading st \<or> errorSet st then st
          else if list_ex (\<lambda>p. snd p \<noteq> None) loadedSummaries
          then st\<lparr>combinedSummaryData := loadedSummaries, showEndGamePanelOverride := True,
                  hasAcknowledgedGameOver := True, isDisplayGameOver := True\<rparr>
          else st\<lparr>invalidMoveMessage := ''No summaries available for '' @ getFriendlyDate d @ ''.'',
                  isInvalidMove := True\<rparr>)"

text \<open>
  \<^verbatim>\<open>handleViewMySolution\<close> (lines 590 to 614).  \<open>summary\<close> is what
  \<^verbatim>\<open>storage.loadSummaryForDifficulty\<close> returned.
\<close>

definition noSolutionData :: "HookState \<Rightarrow> HookState" where
  "noSolutionData st =
     st\<lparr>invalidMoveMessage := ''No solution data found for '' @ difficultyName (difficulty st) @ ''.'',
        isInvalidMove := True\<rparr>"

definition handleViewMySolution :: "LevelCompletionSummary option \<Rightarrow> HookState \<Rightarrow> HookState" where
  "handleViewMySolution summary st =
     (if currentDate st = None \<or> coreGameData st = None \<or> animating (animationState st) \<or>
         showEndGamePanelOverride st \<or> errorSet st \<or> loading st
      then st
      else
        (case summary of
           None \<Rightarrow> noSolutionData st
         | Some sm \<Rightarrow>
             (case sm_finalGrid sm of
                ArrayValue g \<Rightarrow>
                  (let res = GameLogic_setStateForSolutionView g (sm_history sm) (sm_score sm) (gameLogicRef st);
                       st1 = st\<lparr>highlightedCells := [], wiggleCells := [], hintCells := [],
                                selectedCell := None, draggedCell := None, hoveredCell := None,
                                invalidMoveMessage := [], isInvalidMove := False,
                                animationState := noAnimation, gameLogicRef := snd res\<rparr>
                   in (updateReactStateFromCore (fst res) st1)
                        \<lparr>isDisplayGameOver := True, hasAcknowledgedGameOver := True,
                         showEndGamePanelOverride := False\<rparr>)
              | _ \<Rightarrow> noSolutionData st)))"

section \<open>Loading a level\<close>

text \<open>
  The mount effect (lines 141 to 165).  \<open>urlDifficulty\<close> is the \<^verbatim>\<open>difficulty\<close> URL
  parameter, \<open>progress\<close> what \<^verbatim>\<open>storage.loadDifficultyCompletionStatus\<close> returned.
\<close>

fun parseDifficulty :: "string \<Rightarrow> DifficultyLevel option" where
  "parseDifficulty s =
     (if s = ''normal'' then Some Normal
      else if s = ''hard'' then Some Hard
      else if s = ''impossible'' then Some Impossible
      else None)"

definition initialDifficultyValue :: "string option \<Rightarrow> (DifficultyLevel \<Rightarrow> bool) \<Rightarrow> DifficultyLevel" where
  "initialDifficultyValue urlDifficulty progress =
     (case (case urlDifficulty of None \<Rightarrow> None | Some s \<Rightarrow> parseDifficulty s) of
        Some d \<Rightarrow> d
      | None \<Rightarrow>
          if progress Normal \<and> \<not> progress Hard then Hard
          else if progress Normal \<and> progress Hard \<and> \<not> progress Impossible then Impossible
          else Normal)"

definition mountEffect ::
    "Date \<Rightarrow> bool \<Rightarrow> string option \<Rightarrow> (DifficultyLevel \<Rightarrow> bool) \<Rightarrow> HookState \<Rightarrow> HookState" where
  "mountEffect today debug urlDifficulty progress st =
     st\<lparr>currentDate := Some today, isDebugMode := debug, dailyProgress := progress,
        difficulty := initialDifficultyValue urlDifficulty progress\<rparr>"

text \<open>The \<^verbatim>\<open>catch\<close> branch of the mount effect, when a helper throws after the date is set.\<close>

definition mountEffectFailed :: "Date \<Rightarrow> bool \<Rightarrow> HookState \<Rightarrow> HookState" where
  "mountEffectFailed today debug st =
     st\<lparr>currentDate := Some today, isDebugMode := debug,
        error := Some ''Failed to initialize game settings. Please refresh.''\<rparr>"

text \<open>
  What the awaited \<^verbatim>\<open>fetch\<close> and \<^verbatim>\<open>response.json()\<close> of
  \<^verbatim>\<open>loadLevelDataInternal\<close> can give: a rejection with an error message (possibly
  absent), a response that is not ok with its status, or a parsed body.  A body that is
  itself falsy (\<^verbatim>\<open>null\<close>) is \<open>None\<close>.
\<close>

datatype FetchOutcome =
    FetchRejected "string option"
  | HttpNotOk nat
  | JsonBody "GameData option"

fun showNat :: "nat \<Rightarrow> string" where
  "showNat n = (if n < 10 then [char_of (48 + n)] else showNat (n div 10) @ [char_of (48 + n mod 10)])"

definition notAvailableMessage :: "DifficultyLevel \<Rightarrow> string" where
  "notAvailableMessage diff =
     ''Today'' @ [CHR 0x27] @ ''s '' @ difficultyName diff @
     '' level is not available yet. Please check back later!''"

definition fetchFailedMessage :: "(Date \<Rightarrow> string) \<Rightarrow> DifficultyLevel \<Rightarrow> Date \<Rightarrow> nat \<Rightarrow> string" where
  "fetchFailedMessage getFormattedDate diff date status =
     ''Failed to fetch '' @ difficultyName diff @ '' level for '' @ getFormattedDate date @
     '' (HTTP '' @ showNat status @ '')''"

definition corruptedMessage :: "DifficultyLevel \<Rightarrow> string" where
  "corruptedMessage diff = ''Level data for '' @ difficultyName diff @ '' is corrupted.''"

text \<open>
  The part of \<^verbatim>\<open>loadLevelDataInternal\<close> that runs before the first \<^verbatim>\<open>await\<close>
  (lines 201 to 206).  The date argument is a \<^verbatim>\<open>Date\<close> object, which is never falsy.
\<close>

definition loadLevelDataInternal_begin :: "HookState \<Rightarrow> HookState" where
  "loadLevelDataInternal_begin st =
     (updateReactStateFromCore None (st\<lparr>loading := True, error := None\<rparr>))
       \<lparr>isInvalidMove := False, invalidMoveMessage := [],
        selectedCell := None, hoveredCell := None, draggedCell := None,
        wiggleCells := [], hintCells := [], animationState := noAnimation,
        isDisplayGameOver := False, hasAcknowledgedGameOver := False,
        showEndGamePanelOverride := False\<rparr>"

text \<open>The \<^verbatim>\<open>catch\<close> and \<^verbatim>\<open>finally\<close> blocks (lines 259 to 268).\<close>

definition loadFailed :: "DifficultyLevel \<Rightarrow> string option \<Rightarrow> HookState \<Rightarrow> HookState" where
  "loadFailed diff errMessage st =
     (updateReactStateFromCore None
        (st\<lparr>error := Some (orElse errMessage (''Failed to load '' @ difficultyName diff @ '' level.''))\<rparr>))
       \<lparr>isDisplayGameOver := False, hasAcknowledgedGameOver := False, loading := False\<rparr>"

text \<open>
  Lines 220 to 257 and the \<^verbatim>\<open>finally\<close> block: the level is handed to the engine
  with the saved progress \<open>saved\<close> (what \<^verbatim>\<open>storage.loadInProgressState\<close> returned
  for the payload's hash); \<open>daily\<close> is what \<^verbatim>\<open>storage.loadDailyProgress\<close> returned.
\<close>

definition isDailyCompleted :: "DailyProgressData \<Rightarrow> DifficultyLevel \<Rightarrow> bool" where
  "isDailyCompleted daily diff = (case daily diff of None \<Rightarrow> False | Some e \<Rightarrow> de_completed e)"

definition isLoadingInProgressNonResetState :: "SavedProgress option \<Rightarrow> bool" where
  "isLoadingInProgressNonResetState saved =
     (case saved of None \<Rightarrow> False | Some sp \<Rightarrow> sp_currentDepth sp > 0 \<or> length (sp_history sp) > 0)"

definition loadSucceeded ::
    "DifficultyLevel \<Rightarrow> GameData \<Rightarrow> SavedProgress option \<Rightarrow> DailyProgressData \<Rightarrow> HookState \<Rightarrow> HookState" where
  "loadSucceeded diff fetchedGameData saved daily st =
     (let res = GameLogic_loadLevel fetchedGameData saved;
          initialCoreStateLoaded = fst res;
          st1 = updateReactStateFromCore (Some initialCoreStateLoaded) (st\<lparr>gameLogicRef := snd res\<rparr>)
      in if isDailyCompleted daily diff then
           (if isLoadingInProgressNonResetState saved \<or> cs_isGameOver initialCoreStateLoaded then
              (let st2 =
                     (if \<not> cs_isGameOver initialCoreStateLoaded then
                        (let gl = GameLogic_forceGameOver (gameLogicRef st1)
                         in updateReactStateFromCore (GameLogic_getCurrentGameState gl)
                              (st1\<lparr>gameLogicRef := gl\<rparr>))
                      else st1)
               in st2\<lparr>isDisplayGameOver := True, hasAcknowledgedGameOver := True, loading := False\<rparr>)
            else st1\<lparr>isDisplayGameOver := False, hasAcknowledgedGameOver := False, loading := False\<rparr>)
         else if cs_isGameOver initialCoreStateLoaded
         then st1\<lparr>isDisplayGameOver := True, hasAcknowledgedGameOver := False, loading := False\<rparr>
         else st1\<lparr>isDisplayGameOver := False, hasAcknowledgedGameOver := False, loading := False\<rparr>)"

text \<open>
  The validation of line 216:
  \<^verbatim>\<open>!fetchedGameData || !fetchedGameData.initialGrid || !Array.isArray(fetchedGameData.initialGrid)\<close>
\<close>

fun truthy :: "'a jsfield \<Rightarrow> bool" where
  "truthy Falsy = False"
| "truthy TruthyNonArray = True"
| "truthy (ArrayValue x) = True"

fun isArray :: "'a jsfield \<Rightarrow> bool" where
  "isArray (ArrayValue x) = True"
| "isArray _ = False"

definition levelDataCorrupted :: "GameData option \<Rightarrow> bool" where
  "levelDataCorrupted fetchedGameData =
     (case fetchedGameData of
        None \<Rightarrow> True
      | Some gd \<Rightarrow> \<not> truthy (initialGrid gd) \<or> \<not> isArray (initialGrid gd))"

text \<open>The part of \<^verbatim>\<open>loadLevelDataInternal\<close> after the \<^verbatim>\<open>await\<close>s (lines 211 to 268).\<close>

definition loadLevelDataInternal_resume ::
    "(Date \<Rightarrow> string) \<Rightarrow> Date \<Rightarrow> DifficultyLevel \<Rightarrow> FetchOutcome \<Rightarrow> SavedProgress option \<Rightarrow>
     DailyProgressData \<Rightarrow> HookState \<Rightarrow> HookState" where
  "loadLevelDataInternal_resume getFormattedDate date diff outcome saved daily st =
     (case outcome of
        FetchRejected m \<Rightarrow> loadFailed diff m st
      | HttpNotOk status \<Rightarrow>
          loadFailed diff
            (Some (if status = 404 then notAvailableMessage diff
                   else fetchFailedMessage getFormattedDate diff date status)) st
      | JsonBody body \<Rightarrow>
          (case body of
             None \<Rightarrow> loadFailed diff (Some (corruptedMessage diff)) st
           | Some fetchedGameData \<Rightarrow>
               if levelDataCorrupted body
               then loadFailed diff (Some (corruptedMessage diff)) st
               else loadSucceeded diff fetchedGameData saved daily st))"

text \<open>\<^verbatim>\<open>loadLevelDataInternal\<close> run from start to end with nothing in between.\<close>

definition loadLevelDataInternal ::
    "(Date \<Rightarrow> string) \<Rightarrow> Date \<Rightarrow> DifficultyLevel \<Rightarrow> FetchOutcome \<Rightarrow> SavedProgress option \<Rightarrow>
     DailyProgressData \<Rightarrow> HookState \<Rightarrow> HookState" where
  "loadLevelDataInternal getFormattedDate date diff outcome saved daily st =
     loadLevelDataInternal_resume getFormattedDate date diff outcome saved daily
       (loadLevelDataInternal_begin st)"

text \<open>
  The load effect (lines 193 to 279), up to the first \<^verbatim>\<open>await\<close>: it starts a load
  when the date is known and otherwise only clears \<open>loading\<close>.
\<close>

definition loadEffect :: "HookState \<Rightarrow> HookState" where
  "loadEffect st =
     (case currentDate st of
        Some d \<Rightarrow> loadLevelDataInternal_begin st
      | None \<Rightarrow> st\<lparr>loading := False\<rparr>)"

section \<open>Effects on game-over, and the end-game panel\<close>

text \<open>
  The effect that saves the progress (lines 281 to 292) changes no state of the hook:
  it hands the engine's snapshot to \<^verbatim>\<open>storage.saveInProgressState\<close>.  Its result
  here is the record it saves and the date and difficulty it saves it under, if any.
\<close>

definition saveProgressEffect :: "HookState \<Rightarrow> (Date \<times> DifficultyLevel \<times> SavedProgress) option" where
  "saveProgressEffect st =
     (case currentDate st of
        None \<Rightarrow> None
      | Some d \<Rightarrow>
          if \<not> loading st \<and> \<not> errorSet st \<and> coreGameData st \<noteq> None \<and> gridShown (grid st)
          then map_option (\<lambda>sp. (d, difficulty st, sp)) (GameLogic_getGameStateForSaving (gameLogicRef st))
          else None)"

text \<open>The effect that lets the display follow the engine's game-over flag (lines 294 to 309).\<close>

definition gameOverSyncEffect :: "HookState \<Rightarrow> HookState" where
  "gameOverSyncEffect st =
     (if showEndGamePanelOverride st \<or> loading st \<or> coreGameData st = None \<or>
         animating (animationState st) \<or> errorSet st
      then st
      else if isCoreGameOver st then
        (if \<not> isDisplayGameOver st
         then st\<lparr>isDisplayGameOver := True, hasAcknowledgedGameOver := False\<rparr> else st)
      else
        (if isDisplayGameOver st
         then st\<lparr>isDisplayGameOver := False, hasAcknowledgedGameOver := False\<rparr> else st))"

text \<open>
  The effect that saves the daily completion summary (lines 311 to 357).  \<open>stored\<close> is
  what \<^verbatim>\<open>storage.loadDailyProgress(currentDate)\<close> returned.  The result is the new
  state and, when \<^verbatim>\<open>storage.saveDailyProgress\<close> is called, its two arguments: the
  date and the daily progress record with this difficulty's entry replaced.
\<close>

definition canSaveSummary :: "HookState \<Rightarrow> bool" where
  "canSaveSummary st =
     (isDisplayGameOver st \<and> \<not> hasAcknowledgedGameOver st \<and> \<not> showEndGamePanelOverride st \<and>
      currentDepth st = liveMaxDepthAttainable st \<and> liveMaxDepthAttainable st > 0 \<and>
      currentDate st \<noteq> None \<and> coreGameData st \<noteq> None \<and> gridShown (grid st) \<and>
      \<not> loading st \<and> \<not> errorSet st)"

definition summaryToSave ::
    "(ExplorationNodeData \<Rightarrow> HistoryEntry list \<Rightarrow> string list) \<Rightarrow> HookState \<Rightarrow> LevelCompletionSummary" where
  "summaryToSave findLongestWordChain st =
     \<lparr>sm_history = history st,
      sm_score = currentDepth st,
      sm_playerWords = livePlayerUniqueWordsFound st,
      sm_maxScore = liveMaxDepthAttainable st,
      sm_optimalPathWords = liveOptimalPathWords findLongestWordChain st,
      sm_difficultyForSummary = difficulty st,
      sm_finalGrid = ArrayValue (grid st)\<rparr>"

definition alreadyStored :: "DailyProgressData \<Rightarrow> DifficultyLevel \<Rightarrow> bool" where
  "alreadyStored stored diff =
     (case stored diff of None \<Rightarrow> False | Some e \<Rightarrow> de_completed e \<and> de_summary e \<noteq> None)"

definition saveSummaryEffect ::
    "(ExplorationNodeData \<Rightarrow> HistoryEntry list \<Rightarrow> string list) \<Rightarrow> DailyProgressData \<Rightarrow> HookState \<Rightarrow>
     HookState \<times> (Date \<times> DailyProgressData) option" where
  "saveSummaryEffect findLongestWordChain stored st =
     (case currentDate st of
        None \<Rightarrow> (st, None)
      | Some d \<Rightarrow>
          if canSaveSummary st then
            (if alreadyStored stored (difficulty st) then
               ((if \<not> dailyProgress st (difficulty st)
                 then st\<lparr>dailyProgress := (dailyProgress st)(difficulty st := True)\<rparr> else st),
                None)
             else
               (st\<lparr>dailyProgress := (dailyProgress st)(difficulty st := True)\<rparr>,
                Some (d, stored(difficulty st :=
                           Some \<lparr>de_completed = True,
                                 de_summary = Some (summaryToSave findLongestWordChain st)\<rparr>))))
          else (st, None))"

text \<open>
  The data of the end-game panel (the memo of lines 616 to 658), one optional
  \<open>LevelResultData\<close> per difficulty.  \<open>allSavedSummaries\<close> is what
  \<^verbatim>\<open>storage.loadDailyProgress(currentDate)\<close> returns in the live branch.
\<close>

record PanelData =
  normalDataForPanel :: "LevelResultData option"
  hardDataForPanel :: "LevelResultData option"
  impossibleDataForPanel :: "LevelResultData option"

definition noPanelData :: PanelData where
  "noPanelData = \<lparr>normalDataForPanel = None, hardDataForPanel = None, impossibleDataForPanel = None\<rparr>"

fun setPanel :: "DifficultyLevel \<Rightarrow> LevelResultData option \<Rightarrow> PanelData \<Rightarrow> PanelData" where
  "setPanel Normal v p = p\<lparr>normalDataForPanel := v\<rparr>"
| "setPanel Hard v p = p\<lparr>hardDataForPanel := v\<rparr>"
| "setPanel Impossible v p = p\<lparr>impossibleDataForPanel := v\<rparr>"

fun panelOf :: "PanelData \<Rightarrow> DifficultyLevel \<Rightarrow> LevelResultData option" where
  "panelOf p Normal = normalDataForPanel p"
| "panelOf p Hard = hardDataForPanel p"
| "panelOf p Impossible = impossibleDataForPanel p"

text \<open>A stored summary as panel data (lines 625 and 647 to 650).\<close>

definition storedResult :: "LevelCompletionSummary \<Rightarrow> LevelResultData" where
  "storedResult summary =
     \<lparr>rd_history = sm_history summary, rd_score = sm_score summary, rd_maxScore = sm_maxScore summary,
      rd_optimalPathWords = sm_optimalPathWords summary,
      rd_levelCompleted = (sm_score summary = sm_maxScore summary)\<rparr>"

text \<open>\<^verbatim>\<open>liveDataForCurrentDifficulty\<close> (lines 633 to 637)\<close>

definition liveDataForCurrentDifficulty ::
    "(ExplorationNodeData \<Rightarrow> HistoryEntry list \<Rightarrow> string list) \<Rightarrow> HookState \<Rightarrow> LevelResultData" where
  "liveDataForCurrentDifficulty findLongestWordChain st =
     \<lparr>rd_history = history st, rd_score = currentDepth st, rd_maxScore = liveMaxDepthAttainable st,
      rd_optimalPathWords = liveOptimalPathWords findLongestWordChain st,
      rd_levelCompleted = (currentDepth st = liveMaxDepthAttainable st \<and> liveMaxDepthAttainable st > 0)\<rparr>"

definition summaryPanelShown :: "HookState \<Rightarrow> bool" where
  "summaryPanelShown st = (showEndGamePanelOverride st \<and> length (combinedSummaryData st) > 0)"

definition livePanelShown :: "HookState \<Rightarrow> bool" where
  "livePanelShown st =
     (\<not> summaryPanelShown st \<and> isDisplayGameOver st \<and> \<not> hasAcknowledgedGameOver st \<and>
      coreGameData st \<noteq> None \<and> currentDate st \<noteq> None \<and> \<not> errorSet st)"

definition dataForPanel ::
    "(ExplorationNodeData \<Rightarrow> HistoryEntry list \<Rightarrow> string list) \<Rightarrow> DailyProgressData \<Rightarrow> HookState \<Rightarrow> PanelData" where
  "dataForPanel findLongestWordChain allSavedSummaries st =
     (if summaryPanelShown st then
        foldl (\<lambda>p diffLevel.
                 case map_of (combinedSummaryData st) diffLevel of
                   Some (Some summary) \<Rightarrow> setPanel diffLevel (Some (storedResult summary)) p
                 | _ \<Rightarrow> p)
              noPanelData difficulties
      else if livePanelShown st then
        foldl (\<lambda>p diffLevel.
                 setPanel diffLevel
                   (if diffLevel = difficulty st
                    then Some (liveDataForCurrentDifficulty findLongestWordChain st)
                    else (case allSavedSummaries diffLevel of
                            None \<Rightarrow> None
                          | Some e \<Rightarrow> map_option storedResult (de_summary e)))
                   p)
              noPanelData difficulties
      else noPanelData)"

section \<open>The states the hook can reach\<close>

text \<open>
  The hook starts from the initial values of its cells with the mount effect applied
  (the mount effect runs once).  From then on any handler, effect or timer callback may
  run, with any value read from storage or from the network.  Effects are allowed to run
  at any time, and a load may finish for any date and difficulty, which covers a load
  started before the difficulty changed.
\<close>

inductive reachable :: "HookState \<Rightarrow> bool" where
  r_mount: "reachable (mountEffect today debug urlDifficulty progress initialHookState)"
| r_mountFailed: "reachable (mountEffectFailed today debug initialHookState)"
| r_loadEffect: "reachable st \<Longrightarrow> reachable (loadEffect st)"
| r_loadResume:
    "reachable st \<Longrightarrow> reachable (loadLevelDataInternal_resume getFormattedDate date diff outcome saved daily st)"
| r_gameOverSync: "reachable st \<Longrightarrow> reachable (gameOverSyncEffect st)"
| r_saveSummary: "reachable st \<Longrightarrow> reachable (fst (saveSummaryEffect findLongestWordChain stored st))"
| r_autoHint: "reachable st \<Longrightarrow> reachable (autoHintEffect st)"
| r_cellClick: "reachable st \<Longrightarrow> reachable (handleCellClick c st)"
| r_dragStart: "reachable st \<Longrightarrow> reachable (handleDragStart c st)"
| r_dragEnter: "reachable st \<Longrightarrow> reachable (handleDragEnter c st)"
| r_dragLeave: "reachable st \<Longrightarrow> reachable (handleDragLeave c st)"
| r_dragEnd: "reachable st \<Longrightarrow> reachable (handleDragEnd st)"
| r_drop: "reachable st \<Longrightarrow> reachable (handleDrop c st)"
| r_reset: "reachable st \<Longrightarrow> reachable (handleReset st)"
| r_back: "reachable st \<Longrightarrow> reachable (handleBack st)"
| r_closeGameOver: "reachable st \<Longrightarrow> reachable (handleCloseGameOver st)"
| r_playMode: "reachable st \<Longrightarrow> reachable (handlePlayMode d st)"
| r_hintButton: "reachable st \<Longrightarrow> reachable (handleHintButtonClick st)"
| r_showSummary: "reachable st \<Longrightarrow> reachable (handleShowGameSummary getFriendlyDate loadedSummaries st)"
| r_viewSolution: "reachable st \<Longrightarrow> reachable (handleViewMySolution summary st)"
| r_masterReset: "reachable st \<Longrightarrow> reachable (masterResetGameStates st)"
| r_swapAnimationTimeout: "reachable st \<Longrightarrow> reachable (swapAnimationTimeout cells st)"
| r_undoAnimationTimeout: "reachable st \<Longrightarrow> reachable (undoAnimationTimeout n st)"
| r_highlightTimeout: "reachable st \<Longrightarrow> reachable (highlightTimeout st)"
| r_wiggleTimeout: "reachable st \<Longrightarrow> reachable (wiggleTimeout st)"
| r_hintTimeout: "reachable st \<Longrightarrow> reachable (hintTimeout st)"
| r_messageTimeout: "reachable st \<Longrightarrow> reachable (messageTimeout st)"

section \<open>Two small levels\<close>

text \<open>
  The level of the specification's scenarios: one child move at the root, the swap of
  (0,0) and (0,1), forming CATS and leading to a leaf at depth 1.  The second level adds
  a branch of depth 2, so that the CATS leaf is a dead end below the maximum depth.
\<close>

definition cell :: "int \<Rightarrow> int \<Rightarrow> CellCoordinates" where
  "cell r c = \<lparr>row = r, col = c\<rparr>"

definition scenarioGrid :: Grid where
  "scenarioGrid = [[''A'', ''C'', ''T'', ''S''], [''O'', ''D'', ''G'', ''S'']]"

definition catsMove :: ExplorationNodeData where
  "catsMove = ExplorationNode (Some (cell 0 0, cell 0 1)) [''CATS''] 1 []"

definition scenarioLevel :: GameData where
  "scenarioLevel =
     \<lparr>initialGrid = ArrayValue scenarioGrid,
      explorationTree = ExplorationNode None [] 1 [catsMove],
      wordLength = 4, maxDepthReached = 1\<rparr>"

definition dogsMove :: ExplorationNodeData where
  "dogsMove =
     ExplorationNode (Some (cell 1 0, cell 1 1)) [''DOGS''] 2
       [ExplorationNode (Some (cell 1 2, cell 1 3)) [''DOSG''] 2 []]"

definition deadEndLevel :: GameData where
  "deadEndLevel =
     \<lparr>initialGrid = ArrayValue scenarioGrid,
      explorationTree = ExplorationNode None [] 2 [catsMove, dogsMove],
      wordLength = 4, maxDepthReached = 2\<rparr>"

definition noChain :: "ExplorationNodeData \<Rightarrow> HistoryEntry list \<Rightarrow> string list" where
  "noChain t h = []"

definition dayName :: "Date \<Rightarrow> string" where
  "dayName d = ''today''"

definition nothingStored :: DailyProgressData where
  "nothingStored d = None"

text \<open>
  The hook after mounting with the given \<^verbatim>\<open>difficulty\<close> URL parameter and no
  progress stored, and after it has then loaded the given level with no saved progress.
\<close>

definition mounted :: "string option \<Rightarrow> HookState" where
  "mounted url = mountEffect 0 False url (\<lambda>d. False) initialHookState"

definition playing :: "string option \<Rightarrow> GameData \<Rightarrow> HookState" where
  "playing url level =
     loadLevelDataInternal dayName 0 (difficulty (mounted url)) (JsonBody (Some level)) None
       nothingStored (mounted url)"

text \<open>
  The dead-end level after the two clicks that swap (0,0) and (0,1): the swap animation
  runs.  Then the state after the animation timer has fired and the display has followed
  the engine: the game is over at depth 1 of 2.
\<close>

definition catsSwapped :: HookState where
  "catsSwapped = handleCellClick (cell 0 1) (handleCellClick (cell 0 0) (playing None deadEndLevel))"

definition finishedBelowMaximum :: HookState where
  "finishedBelowMaximum = gameOverSyncEffect (swapAnimationTimeout [] catsSwapped)"

text \<open>The scenario level finished at its maximum depth 1, in the same way.\<close>

definition finishedAtMaximum :: HookState where
  "finishedAtMaximum =
     gameOverSyncEffect (swapAnimationTimeout []
       (handleCellClick (cell 0 1) (handleCellClick (cell 0 0) (playing None scenarioLevel))))"

text \<open>
  The scenario level finished at its maximum depth, its summary saved, and then reset
  by the player: a fresh game of a level whose summary is in storage.  Then the same
  with a drag started at (0,0) and, the drag still pending, the summaries of the day
  opened.
\<close>

definition completedThenReset :: HookState where
  "completedThenReset = handleReset (fst (saveSummaryEffect noChain nothingStored finishedAtMaximum))"

definition draggingWithSummaryShown :: HookState where
  "draggingWithSummaryShown =
     handleShowGameSummary dayName
       [(Normal, Some (summaryToSave noChain finishedAtMaximum)), (Hard, None), (Impossible, None)]
       (handleDragStart (cell 0 0) completedThenReset)"


text \<open>
  Stored summaries of a day: hard ended at 1 of 2, impossible at 1 of 1.
\<close>

definition storedSummary :: "DifficultyLevel \<Rightarrow> nat \<Rightarrow> nat \<Rightarrow> LevelCompletionSummary" where
  "storedSummary diff score maxScore =
     \<lparr>sm_history = [], sm_score = score, sm_playerWords = [], sm_maxScore = maxScore,
      sm_optimalPathWords = [], sm_difficultyForSummary = diff,
      sm_finalGrid = ArrayValue scenarioGrid\<rparr>"

definition storedDay :: DailyProgressData where
  "storedDay d =
     (if d = Hard then Some \<lparr>de_completed = False, de_summary = Some (storedSummary Hard 1 2)\<rparr>
      else if d = Impossible
      then Some \<lparr>de_completed = True, de_summary = Some (storedSummary Impossible 1 1)\<rparr>
      else None)"

text \<open>
  A daily progress record that marks the normal level completed, and the hook after it
  has loaded the scenario level against that record with no saved progress.
\<close>

definition normalCompleted :: DailyProgressData where
  "normalCompleted d = (if d = Normal then Some \<lparr>de_completed = True, de_summary = None\<rparr> else None)"

definition reloadedAfterCompletion :: HookState where
  "reloadedAfterCompletion =
     loadLevelDataInternal dayName 0 Normal (JsonBody (Some scenarioLevel)) None normalCompleted
       (mounted None)"

text \<open>A payload without its grid, and the hook after it has tried to load it.\<close>

definition gridlessLevel :: GameData where
  "gridlessLevel = scenarioLevel\<lparr>initialGrid := Falsy\<rparr>"

definition loadedGridless :: HookState where
  "loadedGridless =
     loadLevelDataInternal dayName 0 Normal (JsonBody (Some gridlessLevel)) None nothingStored
       (mounted None)"

text \<open>The scenario level with a drag started at (0,0).\<close>

definition dragging :: HookState where
  "dragging = handleDragStart (cell 0 0) (playing None scenarioLevel)"

text \<open>
  A saved progress record of the dead-end level one move into its longer branch, and
  the hook after it has loaded that level with this record, the day's normal level
  being marked completed.
\<close>

definition dogsProgress :: SavedProgress where
  "dogsProgress =
     \<lparr>sp_grid = [[''A'', ''C'', ''T'', ''S''], [''D'', ''O'', ''G'', ''S'']],
      sp_history = [\<lparr>move = (cell 1 0, cell 1 1), wordsFormedByMove = [''DOGS''],
                     gridAfterMove = [[''A'', ''C'', ''T'', ''S''], [''D'', ''O'', ''G'', ''S'']]\<rparr>],
      sp_currentDepth = 1, sp_hasDeviated = False, sp_turnFailedAttempts = 0\<rparr>"

definition resumedAfterCompletion :: HookState where
  "resumedAfterCompletion =
     loadLevelDataInternal dayName 0 Normal (JsonBody (Some deadEndLevel)) (Some dogsProgress)
       normalCompleted (mounted None)"

text \<open>Three swaps of (1,0) and (1,1), which no move of the scenario level matches.\<close>

definition threeWrongSwaps :: "HookState \<Rightarrow> HookState" where
  "threeWrongSwaps st =
     performSwap (cell 1 0) (cell 1 1)
       (performSwap (cell 1 0) (cell 1 1) (performSwap (cell 1 0) (cell 1 1) st))"

section \<open>Hints and the impossible difficulty\<close>

text \<open>
  The invariant: on the impossible difficulty no hint cell is shown.  A step keeps the
  hints when it leaves the difficulty alone and leaves the hint cells alone or clears
  them.
\<close>

definition hintsOff :: "HookState \<Rightarrow> bool" where
  "hintsOff st = (difficulty st = Impossible \<longrightarrow> hintCells st = [])"

definition keepsHints :: "HookState \<Rightarrow> HookState \<Rightarrow> bool" where
  "keepsHints st st' =
     (difficulty st' = difficulty st \<and> (hintCells st' = hintCells st \<or> hintCells st' = []))"

section \<open>The hook and the engine in step\<close>

text \<open>
  The hook shows the engine's state \<open>c\<close>: the engine holds \<open>c\<close>, and the grid,
  history, depth and game-over cells of the hook are those of \<open>c\<close>.  (Every handler
  that calls the engine re-reads these cells from it.)
\<close>

definition showsEngineState :: "HookState \<Rightarrow> CoreGameState \<Rightarrow> bool" where
  "showsEngineState st c =
     (gl_state (gameLogicRef st) = Some c \<and> grid st = cs_grid c \<and> history st = cs_history c \<and>
      currentDepth st = cs_currentDepth c \<and> isCoreGameOver st = cs_isGameOver c)"

section \<open>Frame lemmas\<close>

lemma update_frame:
  "loading (updateReactStateFromCore c st) = loading st"
  "error (updateReactStateFromCore c st) = error st"
  "currentDate (updateReactStateFromCore c st) = currentDate st"
  "difficulty (updateReactStateFromCore c st) = difficulty st"
  "dailyProgress (updateReactStateFromCore c st) = dailyProgress st"
  "gameLogicRef (updateReactStateFromCore c st) = gameLogicRef st"
  "selectedCell (updateReactStateFromCore c st) = selectedCell st"
  "draggedCell (updateReactStateFromCore c st) = draggedCell st"
  "isInvalidMove (updateReactStateFromCore c st) = isInvalidMove st"
  "invalidMoveMessage (updateReactStateFromCore c st) = invalidMoveMessage st"
  "animationState (updateReactStateFromCore c st) = animationState st"
  "wiggleCells (updateReactStateFromCore c st) = wiggleCells st"
  "hintCells (updateReactStateFromCore c st) = hintCells st"
  "isDisplayGameOver (updateReactStateFromCore c st) = isDisplayGameOver st"
  "hasAcknowledgedGameOver (updateReactStateFromCore c st) = hasAcknowledgedGameOver st"
  "showEndGamePanelOverride (updateReactStateFromCore c st) = showEndGamePanelOverride st"
  by (cases c; simp add: updateReactStateFromCore_def)+

lemma update_errorSet: "errorSet (updateReactStateFromCore c st) = errorSet st"
  by (simp add: errorSet_def update_frame)

lemma update_Some:
  "grid (updateReactStateFromCore (Some c) st) = cs_grid c"
  "currentDepth (updateReactStateFromCore (Some c) st) = cs_currentDepth c"
  "history (updateReactStateFromCore (Some c) st) = cs_history c"
  "turnFailedAttempts (updateReactStateFromCore (Some c) st) = cs_turnFailedAttempts c"
  "isCoreGameOver (updateReactStateFromCore (Some c) st) = cs_isGameOver c"
  "coreGameData (updateReactStateFromCore (Some c) st) = Some (cs_gameData c)"
  by (simp_all add: updateReactStateFromCore_def)

lemma update_None:
  "grid (updateReactStateFromCore None st) = [[]]"
  "currentDepth (updateReactStateFromCore None st) = 0"
  "history (updateReactStateFromCore None st) = []"
  "turnFailedAttempts (updateReactStateFromCore None st) = 0"
  "isCoreGameOver (updateReactStateFromCore None st) = False"
  "coreGameData (updateReactStateFromCore None st) = None"
  by (simp_all add: updateReactStateFromCore_def)

lemma performSwap_ignored: "swapIgnored st \<Longrightarrow> performSwap c1 c2 st = st"
  by (simp add: performSwap_def)

lemma errorSet_inert:
  assumes "errorSet st"
  shows "performSwap a b st = st" "handleCellClick c st = st" "handleDragStart c st = st"
    "handleBack st = st" "handleReset st = st" "handleHintButtonClick st = st"
    "handlePlayMode d st = st"
  using assms
  by (simp_all add: performSwap_def swapIgnored_def handleCellClick_def handleDragStart_def
      handleBack_def handleReset_def handleHintButtonClick_def handlePlayMode_def)

section \<open>The fixtures, evaluated\<close>

lemma mounted_fields:
  "currentDate (mounted url) = Some 0"
  "loading (mounted url) = True"
  by (simp_all add: mounted_def mountEffect_def initialHookState_def)

lemma reachable_playing: "reachable (playing url level)"
proof -
  have m: "reachable (mounted url)"
    unfolding mounted_def by (rule r_mount)
  have "loadEffect (mounted url) = loadLevelDataInternal_begin (mounted url)"
    by (simp add: loadEffect_def mounted_fields)
  with r_loadEffect [OF m] have "reachable (loadLevelDataInternal_begin (mounted url))"
    by simp
  then show ?thesis
    unfolding playing_def loadLevelDataInternal_def by (rule r_loadResume)
qed


section \<open>The daily completion summary\<close>

text \<open>
  Claim C1, as amended.  The summary effect hands a daily completion summary to
  \<^verbatim>\<open>storage.saveDailyProgress\<close> exactly when the game-over display is on and not
  acknowledged, no summary override is shown, the depth reached equals the level's
  maximum depth and that maximum is positive, the date and the level are known, the grid
  is not empty, nothing is loading, no error is set, and storage does not already hold a
  completed entry with a summary for this difficulty.  The record is then saved under
  the current date, as this difficulty's entry, marked completed, with the history, the
  depth as score, the maximum depth, the player's words, the optimal path words, the
  difficulty and the grid.  In every other case nothing is saved.
\<close>

theorem C1_summary_saved_on_completion:
  "snd (saveSummaryEffect findLongestWordChain stored st) =
     (if canSaveSummary st \<and> \<not> alreadyStored stored (difficulty st)
      then Some (the (currentDate st),
                 stored(difficulty st := Some \<lparr>de_completed = True, de_summary = Some
                   \<lparr>sm_history = history st, sm_score = currentDepth st,
                    sm_playerWords = livePlayerUniqueWordsFound st,
                    sm_maxScore = liveMaxDepthAttainable st,
                    sm_optimalPathWords = liveOptimalPathWords findLongestWordChain st,
                    sm_difficultyForSummary = difficulty st,
                    sm_finalGrid = ArrayValue (grid st)\<rparr>\<rparr>))
      else None)"
  by (auto simp: saveSummaryEffect_def summaryToSave_def canSaveSummary_def split: option.splits)

theorem C1_summary_saved_witness:
  "canSaveSummary finishedAtMaximum \<and>
   (\<exists>saved s. snd (saveSummaryEffect noChain nothingStored finishedAtMaximum) = Some (0, saved) \<and>
      saved Normal = Some \<lparr>de_completed = True, de_summary = Some s\<rparr> \<and>
      sm_score s = 1 \<and> sm_maxScore s = 1 \<and> sm_playerWords s = [''CATS''] \<and>
      sm_difficultyForSummary s = Normal)"
proof -
  have c: "canSaveSummary finishedAtMaximum" by code_simp
  have a: "\<not> alreadyStored nothingStored (difficulty finishedAtMaximum)"
    by (simp add: alreadyStored_def nothingStored_def)
  have f: "currentDate finishedAtMaximum = Some 0" "difficulty finishedAtMaximum = Normal"
    "currentDepth finishedAtMaximum = 1" "liveMaxDepthAttainable finishedAtMaximum = 1"
    "livePlayerUniqueWordsFound finishedAtMaximum = [''CATS'']"
    by code_simp+
  show ?thesis
    using C1_summary_saved_on_completion [of noChain nothingStored finishedAtMaximum] c a f
    by simp
qed

theorem C1_game_over_without_summary:
  "isDisplayGameOver finishedBelowMaximum \<and> isCoreGameOver finishedBelowMaximum \<and>
   \<not> hasAcknowledgedGameOver finishedBelowMaximum \<and>
   snd (saveSummaryEffect noChain nothingStored finishedBelowMaximum) = None"
proof -
  have "\<not> canSaveSummary finishedBelowMaximum" by code_simp
  then have "snd (saveSummaryEffect noChain nothingStored finishedBelowMaximum) = None"
    by (simp add: saveSummaryEffect_def split: option.splits)
  moreover have "isDisplayGameOver finishedBelowMaximum" by code_simp
  moreover have "isCoreGameOver finishedBelowMaximum" by code_simp
  moreover have "\<not> hasAcknowledgedGameOver finishedBelowMaximum" by code_simp
  ultimately show ?thesis by simp
qed

section \<open>Swaps that are ignored\<close>

text \<open>
  Claim C6.  While a swap animation runs, while a level loads, while an error is set
  and while the game-over display is on, a swap attempt is ignored: \<^verbatim>\<open>performSwap\<close>
  returns at its guard and changes nothing, the engine included; a cell click changes
  nothing; a drop only clears the drag.
\<close>

theorem C6_swap_ignored_while_settling:
  assumes "animating (animationState st) \<or> loading st \<or> errorSet st \<or> isDisplayGameOver st"
  shows "performSwap c1 c2 st = st \<and> handleCellClick c st = st \<and>
         handleDrop c st = st\<lparr>draggedCell := None, hoveredCell := None\<rparr>"
proof -
  have "swapIgnored st" using assms by (auto simp: swapIgnored_def)
  then have a: "performSwap c1 c2 st = st" by (rule performSwap_ignored)
  have b: "handleCellClick c st = st" using assms by (auto simp: handleCellClick_def)
  have c: "handleDrop c st = st\<lparr>draggedCell := None, hoveredCell := None\<rparr>"
  proof (cases "draggedCell st")
    case None
    then show ?thesis by (simp add: handleDrop_def)
  next
    case (Some s)
    have "showEndGamePanelOverride st \<or> isDisplayGameOver st \<or> loading st \<or>
          animating (animationState st) \<or> errorSet st"
      using assms by blast
    then show ?thesis unfolding handleDrop_def using Some by simp
  qed
  from a b c show ?thesis by simp
qed

theorem C6_swap_ignored_witness:
  "animating (animationState catsSwapped) \<and>
   performSwap (cell 1 0) (cell 1 1) catsSwapped = catsSwapped \<and>
   handleCellClick (cell 1 0) catsSwapped = catsSwapped \<and>
   handleDrop (cell 1 1) catsSwapped = catsSwapped\<lparr>draggedCell := None, hoveredCell := None\<rparr>"
proof -
  have h: "animating (animationState catsSwapped)" by code_simp
  then have "animating (animationState catsSwapped) \<or> loading catsSwapped \<or>
             errorSet catsSwapped \<or> isDisplayGameOver catsSwapped"
    by simp
  from C6_swap_ignored_while_settling [OF this] h show ?thesis by simp
qed

section \<open>Switching the difficulty\<close>

text \<open>
  Claim C7, as amended.  A switch to hard while normal is not complete, and a switch
  to impossible while normal or hard is not complete, is either ignored without a
  message (a summary override is shown, the target is the current difficulty, an
  animation runs or an error is set) or rejected with its message; in both cases the
  difficulty and all game state stay as they are: only the invalid-move message and
  flag change when the switch is rejected.
\<close>

theorem C7_progression_gating:
  assumes "(newDifficulty = Hard \<and> \<not> dailyProgress st Normal) \<or>
           (newDifficulty = Impossible \<and> (\<not> dailyProgress st Normal \<or> \<not> dailyProgress st Hard))"
  shows "handlePlayMode newDifficulty st =
           (if showEndGamePanelOverride st \<or> difficulty st = newDifficulty \<or>
               animating (animationState st) \<or> errorSet st
            then st
            else st\<lparr>invalidMoveMessage :=
                       (if newDifficulty = Hard then ''Complete Normal mode first!''
                        else ''Complete Normal & Hard modes first!''),
                    isInvalidMove := True\<rparr>)"
  using assms by (auto simp: handlePlayMode_def)

theorem C7_progression_gating_witness:
  "\<not> dailyProgress (playing None scenarioLevel) Normal \<and>
   handlePlayMode Hard (playing None scenarioLevel) =
     (playing None scenarioLevel)
       \<lparr>invalidMoveMessage := ''Complete Normal mode first!'', isInvalidMove := True\<rparr>"
proof -
  have h: "\<not> dailyProgress (playing None scenarioLevel) Normal" by code_simp
  have g: "\<not> showEndGamePanelOverride (playing None scenarioLevel)"
    "difficulty (playing None scenarioLevel) = Normal"
    "\<not> animating (animationState (playing None scenarioLevel))"
    "\<not> errorSet (playing None scenarioLevel)"
    by code_simp+
  from h have "(Hard = Hard \<and> \<not> dailyProgress (playing None scenarioLevel) Normal) \<or>
      (Hard = Impossible \<and> (\<not> dailyProgress (playing None scenarioLevel) Normal \<or>
         \<not> dailyProgress (playing None scenarioLevel) Hard))"
    by simp
  from C7_progression_gating [OF this] h g show ?thesis by simp
qed

theorem C7_switch_ignored_without_message:
  "\<not> dailyProgress catsSwapped Normal \<and> difficulty catsSwapped = Normal \<and>
   \<not> isInvalidMove (handlePlayMode Hard catsSwapped) \<and>
   invalidMoveMessage (handlePlayMode Hard catsSwapped) = []"
  by code_simp


section \<open>No hints on the impossible difficulty\<close>

lemma keepsHints_hintsOff: "keepsHints st st' \<Longrightarrow> hintsOff st \<Longrightarrow> hintsOff st'"
  by (auto simp: keepsHints_def hintsOff_def)

lemma onResult_keeps:
  "difficulty (performSwap_onResult a b r gl st) = difficulty st \<and>
   hintCells (performSwap_onResult a b r gl st) = hintCells st"
  by (simp add: performSwap_onResult_def Let_def triggerWiggle_def update_frame)

lemma performSwap_keeps:
  "difficulty (performSwap a b st) = difficulty st \<and> hintCells (performSwap a b st) = hintCells st"
  by (simp add: performSwap_def Let_def onResult_keeps)

lemma k_cellClick: "keepsHints st (handleCellClick c st)"
  by (simp add: keepsHints_def handleCellClick_def Let_def performSwap_keeps split: option.splits)

lemma k_drop: "keepsHints st (handleDrop c st)"
  by (simp add: keepsHints_def handleDrop_def Let_def performSwap_keeps triggerWiggle_def
      split: option.splits)

lemma k_dragStart: "keepsHints st (handleDragStart c st)"
  by (simp add: keepsHints_def handleDragStart_def)

lemma k_dragEnter: "keepsHints st (handleDragEnter c st)"
  by (simp add: keepsHints_def handleDragEnter_def split: option.splits)

lemma k_dragLeave: "keepsHints st (handleDragLeave c st)"
  by (simp add: keepsHints_def handleDragLeave_def split: option.splits)

lemma k_dragEnd: "keepsHints st (handleDragEnd st)"
  by (simp add: keepsHints_def handleDragEnd_def)

lemma k_reset: "keepsHints st (handleReset st)"
  by (simp add: keepsHints_def handleReset_def Let_def update_frame)

lemma k_back: "keepsHints st (handleBack st)"
  by (simp add: keepsHints_def handleBack_def Let_def split: option.splits bool.splits)

lemma k_close: "keepsHints st (handleCloseGameOver st)"
  by (simp add: keepsHints_def handleCloseGameOver_def)

lemma k_masterReset: "keepsHints st (masterResetGameStates st)"
  by (simp add: keepsHints_def masterResetGameStates_def update_frame)

lemma k_showSummary: "keepsHints st (handleShowGameSummary f l st)"
  by (simp add: keepsHints_def handleShowGameSummary_def split: option.splits)

lemma k_viewSolution: "keepsHints st (handleViewMySolution s st)"
  by (simp add: keepsHints_def handleViewMySolution_def noSolutionData_def Let_def update_frame
      split: option.splits jsfield.splits)

lemma k_loadBegin: "keepsHints st (loadLevelDataInternal_begin st)"
  by (simp add: keepsHints_def loadLevelDataInternal_begin_def update_frame)

lemma k_loadEffect: "keepsHints st (loadEffect st)"
  using k_loadBegin [of st] by (simp add: loadEffect_def keepsHints_def split: option.splits)

lemma k_loadFailed: "keepsHints st (loadFailed d m st)"
  by (simp add: keepsHints_def loadFailed_def update_frame)

lemma k_loadSucceeded: "keepsHints st (loadSucceeded d gd saved daily st)"
  by (simp add: keepsHints_def loadSucceeded_def Let_def update_frame)

lemma k_loadResume: "keepsHints st (loadLevelDataInternal_resume f date d outcome saved daily st)"
  by (simp add: loadLevelDataInternal_resume_def k_loadFailed k_loadSucceeded
      split: FetchOutcome.splits option.splits)

lemma k_gameOverSync: "keepsHints st (gameOverSyncEffect st)"
  by (simp add: keepsHints_def gameOverSyncEffect_def)

lemma k_saveSummary: "keepsHints st (fst (saveSummaryEffect f stored st))"
  by (simp add: keepsHints_def saveSummaryEffect_def split: option.splits)

lemma k_timeouts:
  "keepsHints st (swapAnimationTimeout cells st)"
  "keepsHints st (undoAnimationTimeout n st)"
  "keepsHints st (highlightTimeout st)"
  "keepsHints st (wiggleTimeout st)"
  "keepsHints st (hintTimeout st)"
  "keepsHints st (messageTimeout st)"
  by (simp_all add: keepsHints_def swapAnimationTimeout_def undoAnimationTimeout_def
      highlightTimeout_def wiggleTimeout_def hintTimeout_def messageTimeout_def update_frame)

lemma h_autoHint: "hintsOff st \<Longrightarrow> hintsOff (autoHintEffect st)"
  by (simp add: hintsOff_def autoHintEffect_def Let_def)

lemma h_hintButton: "hintsOff st \<Longrightarrow> hintsOff (handleHintButtonClick st)"
  by (simp add: hintsOff_def handleHintButtonClick_def Let_def)

lemma h_playMode: "hintsOff st \<Longrightarrow> hintsOff (handlePlayMode d st)"
  by (simp add: hintsOff_def handlePlayMode_def masterResetGameStates_def)

lemma h_initial:
  "hintsOff (mountEffect today debug url progress initialHookState)"
  "hintsOff (mountEffectFailed today debug initialHookState)"
  by (simp_all add: hintsOff_def mountEffect_def mountEffectFailed_def initialHookState_def)

lemma reachable_hintsOff: "reachable st \<Longrightarrow> hintsOff st"
proof (induction rule: reachable.induct)
  case r_mount
  then show ?case by (rule h_initial)
next
  case r_mountFailed
  then show ?case by (rule h_initial)
next
  case r_autoHint
  then show ?case by (simp add: h_autoHint)
next
  case r_hintButton
  then show ?case by (simp add: h_hintButton)
next
  case r_playMode
  then show ?case by (simp add: h_playMode)
qed (blast intro: keepsHints_hintsOff k_cellClick k_drop k_dragStart k_dragEnter k_dragLeave
      k_dragEnd k_reset k_back k_close k_masterReset k_showSummary k_viewSolution k_loadEffect
      k_loadResume k_gameOverSync k_saveSummary k_timeouts)+

text \<open>
  Claim C9.  In every state the hook can reach with the difficulty impossible, no hint
  cell is shown; there the automatic hint effect leaves the hint cells empty, and the
  hint button changes nothing (it returns before it asks the engine for coordinates).
\<close>

theorem C9_no_hints_on_impossible:
  assumes "reachable st" and "difficulty st = Impossible"
  shows "hintCells st = [] \<and> hintCells (autoHintEffect st) = [] \<and> handleHintButtonClick st = st"
proof -
  from assms have "hintCells st = []"
    using reachable_hintsOff by (simp add: hintsOff_def)
  moreover from assms(2) have "hintCells (autoHintEffect st) = []"
    by (simp add: autoHintEffect_def)
  moreover from assms(2) have "handleHintButtonClick st = st"
    by (simp add: handleHintButtonClick_def)
  ultimately show ?thesis by simp
qed

theorem C9_no_hints_witness:
  "reachable (playing (Some ''impossible'') scenarioLevel) \<and>
   difficulty (playing (Some ''impossible'') scenarioLevel) = Impossible \<and>
   hintCells (playing (Some ''impossible'') scenarioLevel) = [] \<and>
   hintCells (autoHintEffect (playing (Some ''impossible'') scenarioLevel)) = [] \<and>
   handleHintButtonClick (playing (Some ''impossible'') scenarioLevel) =
     playing (Some ''impossible'') scenarioLevel"
proof -
  have r: "reachable (playing (Some ''impossible'') scenarioLevel)" by (rule reachable_playing)
  have d: "difficulty (playing (Some ''impossible'') scenarioLevel) = Impossible" by code_simp
  from C9_no_hints_on_impossible [OF r d] r d show ?thesis by simp
qed

section \<open>The end-game panel\<close>

lemma summary_panel_at:
  "panelOf (foldl (\<lambda>p diffLevel.
                 case map_of cs diffLevel of
                   Some (Some summary) \<Rightarrow> setPanel diffLevel (Some (storedResult summary)) p
                 | _ \<Rightarrow> p)
              noPanelData difficulties) d =
   (case map_of cs d of Some (Some summary) \<Rightarrow> Some (storedResult summary) | _ \<Rightarrow> None)"
  by (cases d) (simp_all add: difficulties_def noPanelData_def split: option.splits)

lemma live_panel_at:
  "panelOf (foldl (\<lambda>p diffLevel. setPanel diffLevel (F diffLevel) p) noPanelData difficulties) d = F d"
  by (cases d) (simp_all add: difficulties_def noPanelData_def)

lemma panelOf_noPanelData: "panelOf noPanelData d = None"
  by (cases d) (simp_all add: noPanelData_def)

lemma dataForPanel_at:
  "panelOf (dataForPanel f saved st) d =
     (if summaryPanelShown st then
        (case map_of (combinedSummaryData st) d of
           Some (Some summary) \<Rightarrow> Some (storedResult summary) | _ \<Rightarrow> None)
      else if livePanelShown st then
        (if d = difficulty st then Some (liveDataForCurrentDifficulty f st)
         else (case saved d of None \<Rightarrow> None | Some e \<Rightarrow> map_option storedResult (de_summary e)))
      else None)"
proof (cases "summaryPanelShown st")
  case True
  then show ?thesis unfolding dataForPanel_def by (simp only: summary_panel_at if_True)
next
  case False
  show ?thesis
  proof (cases "livePanelShown st")
    case True
    with False show ?thesis unfolding dataForPanel_def
      by (simp only: live_panel_at if_True if_False)
  next
    case F2: False
    with False show ?thesis unfolding dataForPanel_def
      by (simp only: panelOf_noPanelData if_False)
  qed
qed

lemma storedResult_completed:
  "rd_levelCompleted (storedResult s) = (rd_score (storedResult s) = rd_maxScore (storedResult s))"
  by (simp add: storedResult_def)

lemma live_completed:
  "rd_levelCompleted (liveDataForCurrentDifficulty f st) =
     (rd_score (liveDataForCurrentDifficulty f st) = rd_maxScore (liveDataForCurrentDifficulty f st) \<and>
      rd_maxScore (liveDataForCurrentDifficulty f st) > 0)"
  by (simp add: liveDataForCurrentDifficulty_def)

lemma completed_of_result:
  assumes a: "panelOf (dataForPanel f saved st) d = Some result"
  shows "rd_levelCompleted result =
        (rd_score result = rd_maxScore result \<and>
         (livePanelShown st \<and> d = difficulty st \<longrightarrow> rd_maxScore result > 0))"
proof (cases "summaryPanelShown st")
  case True
  then have "\<not> livePanelShown st" by (simp add: livePanelShown_def)
  moreover from a True obtain s where "result = storedResult s"
    by (auto simp: dataForPanel_at split: option.splits)
  ultimately show ?thesis by (simp add: storedResult_completed)
next
  case False
  show ?thesis
  proof (cases "livePanelShown st \<and> d = difficulty st")
    case True
    with a False have "result = liveDataForCurrentDifficulty f st"
      by (simp add: dataForPanel_at)
    with True show ?thesis by (simp add: live_completed)
  next
    case F2: False
    with a False obtain s where "result = storedResult s"
      by (auto simp: dataForPanel_at split: option.splits if_splits)
    with F2 show ?thesis using storedResult_completed by auto
  qed
qed

text \<open>
  Claim C10.  The end-game panel counts a level as completed iff the achieved score
  equals the maximum score, and for the live game moreover the maximum score is
  positive.  In the summary panel (override on, summaries loaded) a difficulty shows its
  stored summary, with score and maximum score those of the summary and completed iff
  the two are equal.  In the live panel (game-over display on and not acknowledged, level
  and date known, no error) the current difficulty shows the live game, with the depth
  reached as score and the level's maximum depth as maximum score, completed iff the
  depth equals that maximum and the maximum is positive, so that a game that ended at a
  leaf below the maximum depth is not completed; every other difficulty shows its stored
  summary, completed iff its score equals its maximum score.
\<close>

theorem C10_level_completed_iff_score_is_maximum:
  "(showEndGamePanelOverride st \<and> combinedSummaryData st \<noteq> [] \<longrightarrow>
      panelOf (dataForPanel findLongestWordChain allSavedSummaries st) d =
        (case map_of (combinedSummaryData st) d of
           Some (Some s) \<Rightarrow>
             Some \<lparr>rd_history = sm_history s, rd_score = sm_score s, rd_maxScore = sm_maxScore s,
                   rd_optimalPathWords = sm_optimalPathWords s,
                   rd_levelCompleted = (sm_score s = sm_maxScore s)\<rparr>
         | _ \<Rightarrow> None)) \<and>
   (\<not> (showEndGamePanelOverride st \<and> combinedSummaryData st \<noteq> []) \<and> isDisplayGameOver st \<and>
    \<not> hasAcknowledgedGameOver st \<and> coreGameData st = Some level \<and> currentDate st \<noteq> None \<and>
    \<not> errorSet st \<longrightarrow>
      panelOf (dataForPanel findLongestWordChain allSavedSummaries st) (difficulty st) =
        Some \<lparr>rd_history = history st, rd_score = currentDepth st,
              rd_maxScore = maxDepthReached level,
              rd_optimalPathWords = findLongestWordChain (explorationTree level) (history st),
              rd_levelCompleted =
                (currentDepth st = maxDepthReached level \<and> 0 < maxDepthReached level)\<rparr> \<and>
      (d \<noteq> difficulty st \<longrightarrow>
         panelOf (dataForPanel findLongestWordChain allSavedSummaries st) d =
           (case allSavedSummaries d of
              None \<Rightarrow> None
            | Some e \<Rightarrow>
                (case de_summary e of
                   None \<Rightarrow> None
                 | Some s \<Rightarrow>
                     Some \<lparr>rd_history = sm_history s, rd_score = sm_score s,
                           rd_maxScore = sm_maxScore s,
                           rd_optimalPathWords = sm_optimalPathWords s,
                           rd_levelCompleted = (sm_score s = sm_maxScore s)\<rparr>)))) \<and>
   (panelOf (dataForPanel findLongestWordChain allSavedSummaries st) d = Some result \<longrightarrow>
      rd_levelCompleted result =
        (rd_score result = rd_maxScore result \<and>
         (livePanelShown st \<and> d = difficulty st \<longrightarrow> rd_maxScore result > 0)))"
proof (intro conjI impI)
  assume "showEndGamePanelOverride st \<and> combinedSummaryData st \<noteq> []"
  then have "summaryPanelShown st" by (simp add: summaryPanelShown_def)
  then show "panelOf (dataForPanel findLongestWordChain allSavedSummaries st) d =
        (case map_of (combinedSummaryData st) d of
           Some (Some s) \<Rightarrow>
             Some \<lparr>rd_history = sm_history s, rd_score = sm_score s, rd_maxScore = sm_maxScore s,
                   rd_optimalPathWords = sm_optimalPathWords s,
                   rd_levelCompleted = (sm_score s = sm_maxScore s)\<rparr>
         | _ \<Rightarrow> None)"
    by (simp add: dataForPanel_at storedResult_def split: option.splits)
next
  assume h: "\<not> (showEndGamePanelOverride st \<and> combinedSummaryData st \<noteq> []) \<and> isDisplayGameOver st \<and>
    \<not> hasAcknowledgedGameOver st \<and> coreGameData st = Some level \<and> currentDate st \<noteq> None \<and>
    \<not> errorSet st"
  then have n: "\<not> summaryPanelShown st" by (simp add: summaryPanelShown_def)
  with h have l: "livePanelShown st" by (simp add: livePanelShown_def)
  from n l h show "panelOf (dataForPanel findLongestWordChain allSavedSummaries st) (difficulty st) =
        Some \<lparr>rd_history = history st, rd_score = currentDepth st,
              rd_maxScore = maxDepthReached level,
              rd_optimalPathWords = findLongestWordChain (explorationTree level) (history st),
              rd_levelCompleted =
                (currentDepth st = maxDepthReached level \<and> 0 < maxDepthReached level)\<rparr>"
    by (simp add: dataForPanel_at liveDataForCurrentDifficulty_def liveMaxDepthAttainable_def
        liveOptimalPathWords_def)
  assume "d \<noteq> difficulty st"
  with n l show "panelOf (dataForPanel findLongestWordChain allSavedSummaries st) d =
           (case allSavedSummaries d of
              None \<Rightarrow> None
            | Some e \<Rightarrow>
                (case de_summary e of
                   None \<Rightarrow> None
                 | Some s \<Rightarrow>
                     Some \<lparr>rd_history = sm_history s, rd_score = sm_score s,
                           rd_maxScore = sm_maxScore s,
                           rd_optimalPathWords = sm_optimalPathWords s,
                           rd_levelCompleted = (sm_score s = sm_maxScore s)\<rparr>))"
    by (simp add: dataForPanel_at storedResult_def split: option.splits)
next
  assume "panelOf (dataForPanel findLongestWordChain allSavedSummaries st) d = Some result"
  then show "rd_levelCompleted result =
        (rd_score result = rd_maxScore result \<and>
         (livePanelShown st \<and> d = difficulty st \<longrightarrow> rd_maxScore result > 0))"
    by (rule completed_of_result)
qed

theorem C10_level_completed_witness:
  "isDisplayGameOver finishedAtMaximum \<and> \<not> hasAcknowledgedGameOver finishedAtMaximum \<and>
   coreGameData finishedAtMaximum = Some scenarioLevel \<and> difficulty finishedAtMaximum = Normal \<and>
   coreGameData finishedBelowMaximum = Some deadEndLevel \<and>
   map_option rd_levelCompleted (panelOf (dataForPanel noChain storedDay finishedAtMaximum) Normal) = Some True \<and>
   map_option rd_levelCompleted (panelOf (dataForPanel noChain storedDay finishedBelowMaximum) Normal) = Some False \<and>
   map_option rd_score (panelOf (dataForPanel noChain storedDay finishedBelowMaximum) Normal) = Some 1 \<and>
   map_option rd_maxScore (panelOf (dataForPanel noChain storedDay finishedBelowMaximum) Normal) = Some 2 \<and>
   map_option rd_levelCompleted (panelOf (dataForPanel noChain storedDay finishedAtMaximum) Hard) = Some False \<and>
   map_option rd_levelCompleted (panelOf (dataForPanel noChain storedDay finishedAtMaximum) Impossible) = Some True"
proof -
  have a: "\<not> (showEndGamePanelOverride finishedAtMaximum \<and> combinedSummaryData finishedAtMaximum \<noteq> [])"
    "isDisplayGameOver finishedAtMaximum" "\<not> hasAcknowledgedGameOver finishedAtMaximum"
    "coreGameData finishedAtMaximum = Some scenarioLevel" "currentDate finishedAtMaximum \<noteq> None"
    "\<not> errorSet finishedAtMaximum" "difficulty finishedAtMaximum = Normal"
    "currentDepth finishedAtMaximum = 1" "maxDepthReached scenarioLevel = 1"
    by code_simp+
  have b: "\<not> (showEndGamePanelOverride finishedBelowMaximum \<and> combinedSummaryData finishedBelowMaximum \<noteq> [])"
    "isDisplayGameOver finishedBelowMaximum" "\<not> hasAcknowledgedGameOver finishedBelowMaximum"
    "coreGameData finishedBelowMaximum = Some deadEndLevel" "currentDate finishedBelowMaximum \<noteq> None"
    "\<not> errorSet finishedBelowMaximum" "difficulty finishedBelowMaximum = Normal"
    "currentDepth finishedBelowMaximum = 1" "maxDepthReached deadEndLevel = 2"
    by code_simp+
  have s: "storedDay Hard = Some \<lparr>de_completed = False, de_summary = Some (storedSummary Hard 1 2)\<rparr>"
    "storedDay Impossible = Some \<lparr>de_completed = True, de_summary = Some (storedSummary Impossible 1 1)\<rparr>"
    by (simp_all add: storedDay_def)
  from C10_level_completed_iff_score_is_maximum
         [where st = finishedAtMaximum and level = scenarioLevel and findLongestWordChain = noChain
            and allSavedSummaries = storedDay and d = Hard]
       C10_level_completed_iff_score_is_maximum
         [where st = finishedAtMaximum and level = scenarioLevel and findLongestWordChain = noChain
            and allSavedSummaries = storedDay and d = Impossible]
       C10_level_completed_iff_score_is_maximum
         [where st = finishedBelowMaximum and level = deadEndLevel and findLongestWordChain = noChain
            and allSavedSummaries = storedDay and d = Hard]
       a b s
  show ?thesis by (simp add: storedSummary_def)
qed

section \<open>Rejected swaps\<close>


text \<open>
  When the game-over effect has nothing left to do and swaps are not ignored, the
  hook's game-over flag is off: with the flag on, the effect would turn the display on.
\<close>

lemma settled_not_core_over:
  assumes s: "gameOverSyncEffect st = st" and i: "\<not> swapIgnored st"
  shows "\<not> isCoreGameOver st"
proof
  assume o: "isCoreGameOver st"
  from s have "isDisplayGameOver (gameOverSyncEffect st) = isDisplayGameOver st" by simp
  with i o show False by (auto simp: gameOverSyncEffect_def swapIgnored_def)
qed


lemma countFailedAttempt_state:
  "gl_state gl = Some c \<Longrightarrow>
   gl_state (countFailedAttempt gl) = Some (c\<lparr>cs_turnFailedAttempts := cs_turnFailedAttempts c + 1\<rparr>)"
  by (simp add: countFailedAttempt_def)

text \<open>The hook's part of a rejected swap, for any message of the engine.\<close>

lemma rejected_step:
  assumes i: "\<not> swapIgnored st" and o: "\<not> isCoreGameOver st"
    and s: "gl_state (gameLogicRef st) = Some c"
    and r: "GameLogic_performSwap a b (gameLogicRef st) = (rejected m, countFailedAttempt (gameLogicRef st))"
  shows "isInvalidMove (performSwap a b st)"
    and "invalidMoveMessage (performSwap a b st) = orElse m ''Invalid Move!''"
    and "wiggleCells (performSwap a b st) = (if m = Some ''Game is over.'' then wiggleCells st else [a, b])"
    and "animationState (performSwap a b st) = animationState st"
    and "grid (performSwap a b st) = cs_grid c"
    and "history (performSwap a b st) = cs_history c"
    and "currentDepth (performSwap a b st) = cs_currentDepth c"
    and "hasDeviated (performSwap a b st) = cs_hasDeviated c"
    and "isCoreGameOver (performSwap a b st) = cs_isGameOver c"
    and "coreGameData (performSwap a b st) = Some (cs_gameData c)"
    and "turnFailedAttempts (performSwap a b st) = cs_turnFailedAttempts c + 1"
    and "gl_state (gameLogicRef (performSwap a b st)) =
           Some (c\<lparr>cs_turnFailedAttempts := cs_turnFailedAttempts c + 1\<rparr>)"
    and "showEndGamePanelOverride (performSwap a b st) = showEndGamePanelOverride st"
    and "isDisplayGameOver (performSwap a b st) = isDisplayGameOver st"
    and "loading (performSwap a b st) = loading st"
    and "errorSet (performSwap a b st) = errorSet st"
    and "draggedCell (performSwap a b st) = None"
    and "selectedCell (performSwap a b st) = None"
proof -
  let ?gl = "countFailedAttempt (gameLogicRef st)"
  let ?st0 = "st\<lparr>selectedCell := None, draggedCell := None, hoveredCell := None\<rparr>"
  have p: "performSwap a b st = performSwap_onResult a b (rejected m) ?gl ?st0"
    using i r by (simp add: performSwap_def Let_def)
  have cur: "GameLogic_getCurrentGameState ?gl = Some (c\<lparr>cs_turnFailedAttempts := cs_turnFailedAttempts c + 1\<rparr>)"
    using s by (simp add: GameLogic_getCurrentGameState_def countFailedAttempt_state)
  have n: "newState (rejected m) = None" "\<not> swapSucceeded (rejected m)" "message (rejected m) = m"
    by (simp_all add: rejected_def swapSucceeded_def)
  note defs = performSwap_onResult_def Let_def triggerWiggle_def update_frame update_Some
    update_errorSet errorSet_def
  show "isInvalidMove (performSwap a b st)"
    unfolding p using n cur o by (simp add: defs)
  show "invalidMoveMessage (performSwap a b st) = orElse m ''Invalid Move!''"
    unfolding p using n cur o by (simp add: defs)
  show "wiggleCells (performSwap a b st) = (if m = Some ''Game is over.'' then wiggleCells st else [a, b])"
    unfolding p using n cur o by (simp add: defs)
  show "animationState (performSwap a b st) = animationState st"
    unfolding p using n cur o by (simp add: defs)
  show "grid (performSwap a b st) = cs_grid c"
    unfolding p using n cur o by (simp add: defs)
  show "history (performSwap a b st) = cs_history c"
    unfolding p using n cur o by (simp add: defs)
  show "currentDepth (performSwap a b st) = cs_currentDepth c"
    unfolding p using n cur o by (simp add: defs)
  show "hasDeviated (performSwap a b st) = cs_hasDeviated c"
    unfolding p using n cur o by (simp add: defs updateReactStateFromCore_def)
  show "isCoreGameOver (performSwap a b st) = cs_isGameOver c"
    unfolding p using n cur o by (simp add: defs)
  show "coreGameData (performSwap a b st) = Some (cs_gameData c)"
    unfolding p using n cur o by (simp add: defs)
  show "turnFailedAttempts (performSwap a b st) = cs_turnFailedAttempts c + 1"
    unfolding p using n cur o by (simp add: defs)
  show "gl_state (gameLogicRef (performSwap a b st)) =
           Some (c\<lparr>cs_turnFailedAttempts := cs_turnFailedAttempts c + 1\<rparr>)"
    unfolding p using n cur o s by (simp add: defs countFailedAttempt_state)
  show "showEndGamePanelOverride (performSwap a b st) = showEndGamePanelOverride st"
    unfolding p using n cur o by (simp add: defs)
  show "isDisplayGameOver (performSwap a b st) = isDisplayGameOver st"
    unfolding p using n cur o by (simp add: defs)
  show "loading (performSwap a b st) = loading st"
    unfolding p using n cur o by (simp add: defs)
  show "errorSet (performSwap a b st) = errorSet st"
    unfolding p using n cur o by (simp add: defs)
  show "draggedCell (performSwap a b st) = None"
    unfolding p using n cur o by (simp add: defs)
  show "selectedCell (performSwap a b st) = None"
    unfolding p using n cur o by (simp add: defs)
qed

lemma settled_fixture:
  "\<not> isCoreGameOver st \<Longrightarrow> \<not> isDisplayGameOver st \<Longrightarrow> gameOverSyncEffect st = st"
  by (simp add: gameOverSyncEffect_def)

section \<open>Drops on a cell that is not adjacent\<close>

text \<open>
  Claim C5, as amended.  For every pair of non-adjacent coordinates: a drop of the
  first on the second never reaches \<^verbatim>\<open>performSwap\<close> and never mutates the engine,
  the grid, the history or the depth.  When the drop is not ignored (a level is loaded,
  no summary override, no game-over display, nothing loading, no animation, no error) and
  the two cells differ, it fails with the message \<^verbatim>\<open>Must swap adjacent cells.\<close>,
  sets the invalid-move flag and wiggles the two cells; an ignored drop and a drop on the
  dragged cell itself show no message.  A \<^verbatim>\<open>performSwap\<close> of the pair that is not
  ignored is rejected by the engine with its adjacency message, which the hook shows
  with the invalid-move flag and the wiggle, and leaves grid, history and depth as they
  were.  (The render is one in which the game-over effect has nothing left to do, and
  for \<^verbatim>\<open>performSwap\<close> the hook shows the engine's state.)
\<close>

theorem C5_non_adjacent_swap_attempt:
  assumes "\<not> areAdjacent sourceCell target"
  shows "(draggedCell st = Some sourceCell \<longrightarrow>
            handleDrop target st =
              (if showEndGamePanelOverride st \<or> isDisplayGameOver st \<or> loading st \<or>
                  animating (animationState st) \<or> errorSet st \<or> sameCell sourceCell target \<or>
                  isCoreGameOver st
               then st\<lparr>hoveredCell := None, draggedCell := None\<rparr>
               else st\<lparr>hoveredCell := None, isInvalidMove := True,
                       invalidMoveMessage := ''Must swap adjacent cells.'',
                       wiggleCells := [sourceCell, target], draggedCell := None\<rparr>) \<and>
            gameLogicRef (handleDrop target st) = gameLogicRef st \<and>
            grid (handleDrop target st) = grid st \<and>
            history (handleDrop target st) = history st \<and>
            currentDepth (handleDrop target st) = currentDepth st) \<and>
         (draggedCell st = Some sourceCell \<and> gameOverSyncEffect st = st \<and>
          coreGameData st \<noteq> None \<and> \<not> showEndGamePanelOverride st \<and> \<not> isDisplayGameOver st \<and>
          \<not> loading st \<and> \<not> animating (animationState st) \<and> \<not> errorSet st \<and>
          \<not> sameCell sourceCell target \<longrightarrow>
            isInvalidMove (handleDrop target st) \<and>
            invalidMoveMessage (handleDrop target st) = ''Must swap adjacent cells.'' \<and>
            wiggleCells (handleDrop target st) = [sourceCell, target]) \<and>
         (\<not> swapIgnored st \<and> gameOverSyncEffect st = st \<and> showsEngineState st c \<longrightarrow>
            isInvalidMove (performSwap sourceCell target st) \<and>
            invalidMoveMessage (performSwap sourceCell target st) = notAdjacentMessage \<and>
            wiggleCells (performSwap sourceCell target st) = [sourceCell, target] \<and>
            animationState (performSwap sourceCell target st) = animationState st \<and>
            grid (performSwap sourceCell target st) = grid st \<and>
            history (performSwap sourceCell target st) = history st \<and>
            currentDepth (performSwap sourceCell target st) = currentDepth st)"
proof (intro conjI impI)
  assume d: "draggedCell st = Some sourceCell"
  have e: "handleDrop target st =
              (if showEndGamePanelOverride st \<or> isDisplayGameOver st \<or> loading st \<or>
                  animating (animationState st) \<or> errorSet st \<or> sameCell sourceCell target \<or>
                  isCoreGameOver st
               then st\<lparr>hoveredCell := None, draggedCell := None\<rparr>
               else st\<lparr>hoveredCell := None, isInvalidMove := True,
                       invalidMoveMessage := ''Must swap adjacent cells.'',
                       wiggleCells := [sourceCell, target], draggedCell := None\<rparr>)"
    using assms d by (simp add: handleDrop_def Let_def triggerWiggle_def)
  show "handleDrop target st =
              (if showEndGamePanelOverride st \<or> isDisplayGameOver st \<or> loading st \<or>
                  animating (animationState st) \<or> errorSet st \<or> sameCell sourceCell target \<or>
                  isCoreGameOver st
               then st\<lparr>hoveredCell := None, draggedCell := None\<rparr>
               else st\<lparr>hoveredCell := None, isInvalidMove := True,
                       invalidMoveMessage := ''Must swap adjacent cells.'',
                       wiggleCells := [sourceCell, target], draggedCell := None\<rparr>)"
    by (rule e)
  show "gameLogicRef (handleDrop target st) = gameLogicRef st" by (simp add: e)
  show "grid (handleDrop target st) = grid st" by (simp add: e)
  show "history (handleDrop target st) = history st" by (simp add: e)
  show "currentDepth (handleDrop target st) = currentDepth st" by (simp add: e)
next
  assume h: "draggedCell st = Some sourceCell \<and> gameOverSyncEffect st = st \<and>
          coreGameData st \<noteq> None \<and> \<not> showEndGamePanelOverride st \<and> \<not> isDisplayGameOver st \<and>
          \<not> loading st \<and> \<not> animating (animationState st) \<and> \<not> errorSet st \<and>
          \<not> sameCell sourceCell target"
  then have "\<not> swapIgnored st" by (simp add: swapIgnored_def)
  with h have o: "\<not> isCoreGameOver st" using settled_not_core_over by blast
  have e: "handleDrop target st =
             st\<lparr>hoveredCell := None, isInvalidMove := True,
                invalidMoveMessage := ''Must swap adjacent cells.'',
                wiggleCells := [sourceCell, target], draggedCell := None\<rparr>"
    using assms h o by (simp add: handleDrop_def Let_def triggerWiggle_def)
  show "isInvalidMove (handleDrop target st)" by (simp add: e)
  show "invalidMoveMessage (handleDrop target st) = ''Must swap adjacent cells.''" by (simp add: e)
  show "wiggleCells (handleDrop target st) = [sourceCell, target]" by (simp add: e)
next
  assume h: "\<not> swapIgnored st \<and> gameOverSyncEffect st = st \<and> showsEngineState st c"
  then have o: "\<not> isCoreGameOver st" using settled_not_core_over by blast
  from h have s: "gl_state (gameLogicRef st) = Some c" and g: "\<not> cs_isGameOver c"
    and m: "grid st = cs_grid c" "history st = cs_history c" "currentDepth st = cs_currentDepth c"
    using o by (simp_all add: showsEngineState_def)
  have r: "GameLogic_performSwap sourceCell target (gameLogicRef st) =
             (rejected (Some notAdjacentMessage), countFailedAttempt (gameLogicRef st))"
    using s g assms by (simp add: GameLogic_performSwap_def)
  from h have i: "\<not> swapIgnored st" by simp
  have ne: "notAdjacentMessage \<noteq> []" "notAdjacentMessage \<noteq> ''Game is over.''"
    by (simp_all add: notAdjacentMessage_def)
  note st = rejected_step [OF i o s r]
  show "isInvalidMove (performSwap sourceCell target st)" by (rule st)
  show "invalidMoveMessage (performSwap sourceCell target st) = notAdjacentMessage"
    using st(2) ne by (simp add: orElse_def)
  show "wiggleCells (performSwap sourceCell target st) = [sourceCell, target]"
    using st(3) ne by simp
  show "animationState (performSwap sourceCell target st) = animationState st" by (rule st)
  show "grid (performSwap sourceCell target st) = grid st" using st(5) m by simp
  show "history (performSwap sourceCell target st) = history st" using st(6) m by simp
  show "currentDepth (performSwap sourceCell target st) = currentDepth st" using st(7) m by simp
qed

theorem C5_non_adjacent_swap_attempt_witness:
  "\<not> areAdjacent (cell 0 0) (cell 1 1) \<and> draggedCell dragging = Some (cell 0 0) \<and>
   gameOverSyncEffect dragging = dragging \<and> \<not> swapIgnored dragging \<and>
   \<not> sameCell (cell 0 0) (cell 1 1) \<and> showsEngineState dragging (freshState scenarioLevel) \<and>
   isInvalidMove (handleDrop (cell 1 1) dragging) \<and>
   invalidMoveMessage (handleDrop (cell 1 1) dragging) = ''Must swap adjacent cells.'' \<and>
   wiggleCells (handleDrop (cell 1 1) dragging) = [cell 0 0, cell 1 1] \<and>
   gameLogicRef (handleDrop (cell 1 1) dragging) = gameLogicRef dragging \<and>
   grid (handleDrop (cell 1 1) dragging) = grid dragging \<and>
   history (handleDrop (cell 1 1) dragging) = history dragging \<and>
   currentDepth (handleDrop (cell 1 1) dragging) = currentDepth dragging \<and>
   isInvalidMove (performSwap (cell 0 0) (cell 1 1) dragging) \<and>
   invalidMoveMessage (performSwap (cell 0 0) (cell 1 1) dragging) = notAdjacentMessage \<and>
   grid (performSwap (cell 0 0) (cell 1 1) dragging) = grid dragging \<and>
   history (performSwap (cell 0 0) (cell 1 1) dragging) = history dragging \<and>
   currentDepth (performSwap (cell 0 0) (cell 1 1) dragging) = currentDepth dragging"
proof -
  have a: "\<not> areAdjacent (cell 0 0) (cell 1 1)" by code_simp
  have d: "draggedCell dragging = Some (cell 0 0)" by code_simp
  have f: "\<not> isCoreGameOver dragging" "\<not> isDisplayGameOver dragging" by code_simp+
  then have s: "gameOverSyncEffect dragging = dragging" by (rule settled_fixture)
  have i: "\<not> swapIgnored dragging" by code_simp
  have g: "coreGameData dragging \<noteq> None" "\<not> showEndGamePanelOverride dragging"
    "\<not> loading dragging" "\<not> animating (animationState dragging)" "\<not> errorSet dragging"
    "\<not> sameCell (cell 0 0) (cell 1 1)"
    by code_simp+
  have e: "showsEngineState dragging (freshState scenarioLevel)" by code_simp
  from C5_non_adjacent_swap_attempt [OF a, of dragging "freshState scenarioLevel"] a d f s i g e
  show ?thesis by simp
qed

theorem C5_drop_without_message:
  "\<not> areAdjacent (cell 0 0) (cell 1 1) \<and> \<not> sameCell (cell 0 0) (cell 1 1) \<and>
   draggedCell draggingWithSummaryShown = Some (cell 0 0) \<and>
   showEndGamePanelOverride draggingWithSummaryShown \<and>
   \<not> isCoreGameOver draggingWithSummaryShown \<and>
   \<not> isInvalidMove (handleDrop (cell 1 1) draggingWithSummaryShown) \<and>
   invalidMoveMessage (handleDrop (cell 1 1) draggingWithSummaryShown) = [] \<and>
   wiggleCells (handleDrop (cell 1 1) draggingWithSummaryShown) = [] \<and>
   \<not> areAdjacent (cell 0 0) (cell 0 0) \<and> draggedCell dragging = Some (cell 0 0) \<and>
   \<not> isCoreGameOver dragging \<and> \<not> isDisplayGameOver dragging \<and> \<not> swapIgnored dragging \<and>
   \<not> isInvalidMove (handleDrop (cell 0 0) dragging) \<and>
   invalidMoveMessage (handleDrop (cell 0 0) dragging) = [] \<and>
   wiggleCells (handleDrop (cell 0 0) dragging) = []"
  by code_simp

section \<open>Swaps the engine rejects\<close>



section \<open>Loading a corrupted level\<close>

lemma corruptedMessage_nonempty: "corruptedMessage diff \<noteq> []"
  by (simp add: corruptedMessage_def)

lemma begin_gameLogicRef: "gameLogicRef (loadLevelDataInternal_begin st) = gameLogicRef st"
  by (simp add: loadLevelDataInternal_begin_def update_frame)

lemma loadFailed_fields:
  "error (loadFailed diff m st) = Some (orElse m (''Failed to load '' @ difficultyName diff @ '' level.''))"
  "loading (loadFailed diff m st) = False"
  "coreGameData (loadFailed diff m st) = None"
  "grid (loadFailed diff m st) = [[]]"
  "history (loadFailed diff m st) = []"
  "currentDepth (loadFailed diff m st) = 0"
  "isCoreGameOver (loadFailed diff m st) = False"
  "isDisplayGameOver (loadFailed diff m st) = False"
  "gameLogicRef (loadFailed diff m st) = gameLogicRef st"
  by (simp_all add: loadFailed_def update_frame update_None)

lemma corrupted_load:
  "levelDataCorrupted body \<Longrightarrow>
   loadLevelDataInternal f date diff (JsonBody body) saved daily st =
     loadFailed diff (Some (corruptedMessage diff)) (loadLevelDataInternal_begin st)"
  by (cases body) (simp_all add: loadLevelDataInternal_def loadLevelDataInternal_resume_def)

text \<open>
  Claim C4, as amended.  When the fetched payload is falsy, or its initial grid is
  falsy (missing) or not an array, loading reports \<^verbatim>\<open>Level data for <difficulty> is
  corrupted.\<close> in the error cell and leaves the hook with its empty defaults: no
  level, the grid \<^verbatim>\<open>[[]]\<close>, an empty history, depth 0, no game-over, nothing
  loading; the engine is not touched.  While that error is set, play is blocked: swaps,
  cell clicks, drags, undo, reset, the hint button and difficulty switches change
  nothing.
\<close>

theorem C4_corrupted_level_reported_and_play_blocked:
  assumes "levelDataCorrupted body"
  shows "error (loadLevelDataInternal getFormattedDate date diff (JsonBody body) saved daily st) =
           Some (corruptedMessage diff) \<and>
         (let st' = loadLevelDataInternal getFormattedDate date diff (JsonBody body) saved daily st
          in \<not> loading st' \<and> coreGameData st' = None \<and> grid st' = [[]] \<and> history st' = [] \<and>
             currentDepth st' = 0 \<and> \<not> isCoreGameOver st' \<and> \<not> isDisplayGameOver st' \<and>
             gameLogicRef st' = gameLogicRef st \<and>
             performSwap a b st' = st' \<and> handleCellClick c st' = st' \<and>
             handleDragStart c st' = st' \<and> handleBack st' = st' \<and> handleReset st' = st' \<and>
             handleHintButtonClick st' = st' \<and> handlePlayMode d st' = st')"
proof -
  let ?st' = "loadLevelDataInternal getFormattedDate date diff (JsonBody body) saved daily st"
  have l: "?st' = loadFailed diff (Some (corruptedMessage diff)) (loadLevelDataInternal_begin st)"
    using assms by (rule corrupted_load)
  have e: "error ?st' = Some (corruptedMessage diff)"
    unfolding l by (simp add: loadFailed_fields orElse_def corruptedMessage_nonempty)
  then have es: "errorSet ?st'"
    by (simp add: errorSet_def corruptedMessage_nonempty)
  have f: "\<not> loading ?st' \<and> coreGameData ?st' = None \<and> grid ?st' = [[]] \<and> history ?st' = [] \<and>
           currentDepth ?st' = 0 \<and> \<not> isCoreGameOver ?st' \<and> \<not> isDisplayGameOver ?st' \<and>
           gameLogicRef ?st' = gameLogicRef st"
    unfolding l by (simp add: loadFailed_fields begin_gameLogicRef)
  from e f errorSet_inert [OF es] show ?thesis by (simp add: Let_def)
qed

theorem C4_corrupted_level_witness:
  "levelDataCorrupted (Some gridlessLevel) \<and>
   error loadedGridless = Some ''Level data for normal is corrupted.'' \<and>
   coreGameData loadedGridless = None \<and> grid loadedGridless = [[]] \<and>
   gameLogicRef loadedGridless = gameLogicRef (mounted None) \<and>
   handleCellClick (cell 0 0) loadedGridless = loadedGridless"
proof -
  have h: "levelDataCorrupted (Some gridlessLevel)" by code_simp
  have m: "corruptedMessage Normal = ''Level data for normal is corrupted.''" by code_simp
  from C4_corrupted_level_reported_and_play_blocked
         [OF h, of dayName 0 Normal None nothingStored "mounted None" "cell 0 0" "cell 0 1" "cell 0 0" Hard]
       h m
  show ?thesis by (simp add: Let_def loadedGridless_def)
qed

theorem C4_play_blocked_after_corrupted_load:
  "levelDataCorrupted (Some gridlessLevel) \<and> errorSet loadedGridless \<and>
   coreGameData loadedGridless = None \<and> swapIgnored loadedGridless \<and>
   performSwap (cell 0 0) (cell 0 1) loadedGridless = loadedGridless \<and>
   handleCellClick (cell 0 0) loadedGridless = loadedGridless \<and>
   handleReset loadedGridless = loadedGridless"
proof -
  have h: "levelDataCorrupted (Some gridlessLevel)" by code_simp
  have e: "errorSet loadedGridless" by code_simp
  have c: "coreGameData loadedGridless = None" by code_simp
  have i: "swapIgnored loadedGridless" using e by (simp add: swapIgnored_def)
  from h e c i errorSet_inert [OF e] show ?thesis by simp
qed

section \<open>Loading a level that is already completed\<close>

lemma loadLevel_state:
  "gl_state (snd (GameLogic_loadLevel gd saved)) = Some (fst (GameLogic_loadLevel gd saved))"
  by (simp add: GameLogic_loadLevel_def Let_def split: option.splits)

lemma valid_load:
  "\<not> levelDataCorrupted (Some gd) \<Longrightarrow>
   loadLevelDataInternal f date diff (JsonBody (Some gd)) saved daily st =
     loadSucceeded diff gd saved daily (loadLevelDataInternal_begin st)"
  by (simp add: loadLevelDataInternal_def loadLevelDataInternal_resume_def)

lemma isGameOver_idem: "cs_isGameOver s \<Longrightarrow> s\<lparr>cs_isGameOver := True\<rparr> = s"
  by simp

text \<open>
  Claim C3, as amended.  On level load with a valid payload, if the daily-completion
  record marks the level completed and either the saved in-progress record has a positive
  depth or a non-empty history, or the state the engine loaded is already game-over, then
  the state becomes terminal: the display is game-over and acknowledged, the engine's
  flag and its mirror are set (\<^verbatim>\<open>forceGameOver\<close> is invoked when the loaded state was
  not game-over), and grid, history and depth are those the engine loaded.  If the level
  is marked completed but there is no such in-progress record and the loaded state is not
  game-over, \<^verbatim>\<open>forceGameOver\<close> is not invoked and the level is shown as loaded,
  ready to be played again.
\<close>

theorem C3_completed_level_on_load:
  assumes "\<not> levelDataCorrupted (Some gd)" and "isDailyCompleted daily diff"
  shows "let loaded = fst (GameLogic_loadLevel gd saved);
             st' = loadLevelDataInternal getFormattedDate date diff (JsonBody (Some gd)) saved daily st
         in (isLoadingInProgressNonResetState saved \<or> cs_isGameOver loaded \<longrightarrow>
               isDisplayGameOver st' \<and> hasAcknowledgedGameOver st' \<and> isCoreGameOver st' \<and>
               grid st' = cs_grid loaded \<and> history st' = cs_history loaded \<and>
               currentDepth st' = cs_currentDepth loaded \<and>
               gl_state (gameLogicRef st') = Some (loaded\<lparr>cs_isGameOver := True\<rparr>) \<and>
               gl_path (gameLogicRef st') = gl_path (snd (GameLogic_loadLevel gd saved))) \<and>
            (\<not> isLoadingInProgressNonResetState saved \<and> \<not> cs_isGameOver loaded \<longrightarrow>
               \<not> isDisplayGameOver st' \<and> \<not> hasAcknowledgedGameOver st' \<and> \<not> isCoreGameOver st' \<and>
               gameLogicRef st' = snd (GameLogic_loadLevel gd saved) \<and>
               gl_state (gameLogicRef st') = Some loaded)"
proof -
  let ?loaded = "fst (GameLogic_loadLevel gd saved)"
  let ?st' = "loadLevelDataInternal getFormattedDate date diff (JsonBody (Some gd)) saved daily st"
  have l: "?st' = loadSucceeded diff gd saved daily (loadLevelDataInternal_begin st)"
    using assms(1) by (rule valid_load)
  have a: "isLoadingInProgressNonResetState saved \<or> cs_isGameOver ?loaded \<longrightarrow>
               isDisplayGameOver ?st' \<and> hasAcknowledgedGameOver ?st' \<and> isCoreGameOver ?st' \<and>
               grid ?st' = cs_grid ?loaded \<and> history ?st' = cs_history ?loaded \<and>
               currentDepth ?st' = cs_currentDepth ?loaded \<and>
               gl_state (gameLogicRef ?st') = Some (?loaded\<lparr>cs_isGameOver := True\<rparr>) \<and>
               gl_path (gameLogicRef ?st') = gl_path (snd (GameLogic_loadLevel gd saved))"
  proof (cases "cs_isGameOver ?loaded")
    case True
    then show ?thesis
      unfolding l using assms(2)
      by (simp add: loadSucceeded_def Let_def update_frame update_Some loadLevel_state)
  next
    case False
    then show ?thesis
      unfolding l using assms(2)
      by (simp add: loadSucceeded_def Let_def update_frame update_Some loadLevel_state
          GameLogic_forceGameOver_def GameLogic_getCurrentGameState_def)
  qed
  have b: "\<not> isLoadingInProgressNonResetState saved \<and> \<not> cs_isGameOver ?loaded \<longrightarrow>
               \<not> isDisplayGameOver ?st' \<and> \<not> hasAcknowledgedGameOver ?st' \<and> \<not> isCoreGameOver ?st' \<and>
               gameLogicRef ?st' = snd (GameLogic_loadLevel gd saved) \<and>
               gl_state (gameLogicRef ?st') = Some ?loaded"
    unfolding l using assms(2)
    by (simp add: loadSucceeded_def Let_def update_frame update_Some loadLevel_state)
  show ?thesis unfolding Let_def using a b by blast
qed

theorem C3_completed_level_witness:
  "\<not> levelDataCorrupted (Some deadEndLevel) \<and> isDailyCompleted normalCompleted Normal \<and>
   isLoadingInProgressNonResetState (Some dogsProgress) \<and>
   \<not> cs_isGameOver (fst (GameLogic_loadLevel deadEndLevel (Some dogsProgress))) \<and>
   isDisplayGameOver resumedAfterCompletion \<and> hasAcknowledgedGameOver resumedAfterCompletion \<and>
   isCoreGameOver resumedAfterCompletion \<and>
   grid resumedAfterCompletion = cs_grid (fst (GameLogic_loadLevel deadEndLevel (Some dogsProgress))) \<and>
   history resumedAfterCompletion = cs_history (fst (GameLogic_loadLevel deadEndLevel (Some dogsProgress))) \<and>
   currentDepth resumedAfterCompletion = 1"
proof -
  have v: "\<not> levelDataCorrupted (Some deadEndLevel)" by code_simp
  have c: "isDailyCompleted normalCompleted Normal" by code_simp
  have n: "isLoadingInProgressNonResetState (Some dogsProgress)" by code_simp
  have g: "\<not> cs_isGameOver (fst (GameLogic_loadLevel deadEndLevel (Some dogsProgress)))" by code_simp
  have d: "cs_currentDepth (fst (GameLogic_loadLevel deadEndLevel (Some dogsProgress))) = 1" by code_simp
  from C3_completed_level_on_load [OF v c, of "Some dogsProgress" dayName 0 "mounted None"] v c n g d
  show ?thesis by (simp add: Let_def resumedAfterCompletion_def)
qed

theorem C3_completed_level_loaded_fresh:
  "\<not> levelDataCorrupted (Some scenarioLevel) \<and> isDailyCompleted normalCompleted Normal \<and>
   \<not> isDisplayGameOver reloadedAfterCompletion \<and> \<not> isCoreGameOver reloadedAfterCompletion \<and>
   \<not> cs_isGameOver (the (gl_state (gameLogicRef reloadedAfterCompletion))) \<and>
   \<not> swapIgnored reloadedAfterCompletion \<and> currentDepth reloadedAfterCompletion = 0 \<and>
   currentDepth (handleCellClick (cell 0 1) (handleCellClick (cell 0 0) reloadedAfterCompletion)) = 1"
  by code_simp


section \<open>Three rejected swaps and the automatic hint\<close>

lemma wrong_move_rejected:
  assumes "gl_state gl = Some c" and "\<not> cs_isGameOver c" and "areAdjacent a b"
    and "findChild (cs_currentPossibleMoves c) (a, b) = None"
  shows "GameLogic_performSwap a b gl = (rejected (Some wrongMoveMessage), countFailedAttempt gl)"
  using assms by (simp add: GameLogic_performSwap_def)

lemma hint_of_state:
  "gl_state gl = Some c \<Longrightarrow>
   GameLogic_calculateHintCoordinates gl =
     (case bestChild (cs_currentPossibleMoves c) of
        None \<Rightarrow> []
      | Some n \<Rightarrow> (case nd_move n of None \<Rightarrow> [] | Some m \<Rightarrow> [fst m, snd m]))"
  by (simp add: GameLogic_calculateHintCoordinates_def)

lemma wrong_move_step:
  assumes i: "\<not> swapIgnored st" and s: "gl_state (gameLogicRef st) = Some c"
    and g: "\<not> cs_isGameOver c" and adj: "areAdjacent a b"
    and w: "findChild (cs_currentPossibleMoves c) (a, b) = None"
  shows "\<not> swapIgnored (performSwap a b st) \<and>
         gl_state (gameLogicRef (performSwap a b st)) =
           Some (c\<lparr>cs_turnFailedAttempts := cs_turnFailedAttempts c + 1\<rparr>) \<and>
         turnFailedAttempts (performSwap a b st) = cs_turnFailedAttempts c + 1 \<and>
         grid (performSwap a b st) = cs_grid c \<and>
         difficulty (performSwap a b st) = difficulty st \<and>
         hintCells (performSwap a b st) = hintCells st"
proof -
  let ?gl = "countFailedAttempt (gameLogicRef st)"
  let ?c = "c\<lparr>cs_turnFailedAttempts := cs_turnFailedAttempts c + 1\<rparr>"
  let ?st0 = "st\<lparr>selectedCell := None, draggedCell := None, hoveredCell := None\<rparr>"
  have r: "GameLogic_performSwap a b (gameLogicRef st) = (rejected (Some wrongMoveMessage), ?gl)"
    using s g adj w by (rule wrong_move_rejected)
  have p: "performSwap a b st = performSwap_onResult a b (rejected (Some wrongMoveMessage)) ?gl ?st0"
    using i r by (simp add: performSwap_def Let_def)
  have cur: "GameLogic_getCurrentGameState ?gl = Some ?c"
    using s by (simp add: GameLogic_getCurrentGameState_def countFailedAttempt_state)
  have n: "newState (rejected (Some wrongMoveMessage)) = None"
    "\<not> swapSucceeded (rejected (Some wrongMoveMessage))"
    by (simp_all add: rejected_def swapSucceeded_def)
  from i have i': "\<not> showEndGamePanelOverride st" "\<not> isDisplayGameOver st"
    "\<not> animating (animationState st)" "\<not> loading st" "\<not> errorSet st"
    by (simp_all add: swapIgnored_def)
  have 1: "\<not> swapIgnored (performSwap a b st)"
    unfolding p using n cur i'
    by (simp add: performSwap_onResult_def Let_def triggerWiggle_def swapIgnored_def errorSet_def
        update_frame update_Some)
  have 2: "gl_state (gameLogicRef (performSwap a b st)) = Some ?c"
    unfolding p using n cur s
    by (simp add: performSwap_onResult_def Let_def triggerWiggle_def update_frame
        countFailedAttempt_state)
  have 3: "turnFailedAttempts (performSwap a b st) = cs_turnFailedAttempts c + 1 \<and>
           grid (performSwap a b st) = cs_grid c"
    unfolding p using n cur
    by (simp add: performSwap_onResult_def Let_def triggerWiggle_def update_Some)
  have 4: "difficulty (performSwap a b st) = difficulty st \<and>
           hintCells (performSwap a b st) = hintCells st"
    by (rule performSwap_keeps)
  from 1 2 3 4 show ?thesis by simp
qed

text \<open>
  Claim C2, as amended.  After three consecutive swap attempts that the hook does not
  ignore and the engine rejects as matching no child move (the cells adjacent, the game
  not over, the counter at 0 before), \<open>turnFailedAttempts\<close> equals 3 and the grid is
  unchanged.  On the impossible difficulty the automatic hint effect then shows no hint.
  On the other difficulties, with a non-empty grid, the effect asks the engine for the
  hint coordinates and shows them when they are not empty; they are the two cells of the
  engine's best child move.
\<close>

theorem C2_three_rejected_swaps_then_hint:
  assumes "\<not> swapIgnored st" and "gl_state (gameLogicRef st) = Some c"
    and "\<not> cs_isGameOver c" and "cs_turnFailedAttempts c = 0"
    and "areAdjacent a1 b1" and "findChild (cs_currentPossibleMoves c) (a1, b1) = None"
    and "areAdjacent a2 b2" and "findChild (cs_currentPossibleMoves c) (a2, b2) = None"
    and "areAdjacent a3 b3" and "findChild (cs_currentPossibleMoves c) (a3, b3) = None"
  shows "let st3 = performSwap a3 b3 (performSwap a2 b2 (performSwap a1 b1 st));
             coordinates = GameLogic_calculateHintCoordinates (gameLogicRef st3)
         in turnFailedAttempts st3 = 3 \<and> grid st3 = cs_grid c \<and>
            (difficulty st = Impossible \<longrightarrow> hintCells (autoHintEffect st3) = []) \<and>
            (difficulty st \<noteq> Impossible \<and> gridShown (cs_grid c) \<longrightarrow>
               hintCells (autoHintEffect st3) = (if coordinates = [] then hintCells st else coordinates)) \<and>
            (\<forall>n m. bestChild (cs_currentPossibleMoves c) = Some n \<and> nd_move n = Some m \<longrightarrow>
               coordinates = [fst m, snd m])"
proof -
  let ?s1 = "performSwap a1 b1 st"
  let ?s2 = "performSwap a2 b2 ?s1"
  let ?s3 = "performSwap a3 b3 ?s2"
  let ?c1 = "c\<lparr>cs_turnFailedAttempts := cs_turnFailedAttempts c + 1\<rparr>"
  let ?c2 = "?c1\<lparr>cs_turnFailedAttempts := cs_turnFailedAttempts ?c1 + 1\<rparr>"
  let ?c3 = "?c2\<lparr>cs_turnFailedAttempts := cs_turnFailedAttempts ?c2 + 1\<rparr>"
  have 1: "\<not> swapIgnored ?s1 \<and> gl_state (gameLogicRef ?s1) = Some ?c1 \<and>
           turnFailedAttempts ?s1 = cs_turnFailedAttempts c + 1 \<and> grid ?s1 = cs_grid c \<and>
           difficulty ?s1 = difficulty st \<and> hintCells ?s1 = hintCells st"
    using assms(1,2,3,5,6) by (rule wrong_move_step)
  have 2: "\<not> swapIgnored ?s2 \<and> gl_state (gameLogicRef ?s2) = Some ?c2 \<and>
           turnFailedAttempts ?s2 = cs_turnFailedAttempts ?c1 + 1 \<and> grid ?s2 = cs_grid ?c1 \<and>
           difficulty ?s2 = difficulty ?s1 \<and> hintCells ?s2 = hintCells ?s1"
    by (rule wrong_move_step) (use 1 assms in simp_all)
  have 3: "\<not> swapIgnored ?s3 \<and> gl_state (gameLogicRef ?s3) = Some ?c3 \<and>
           turnFailedAttempts ?s3 = cs_turnFailedAttempts ?c2 + 1 \<and> grid ?s3 = cs_grid ?c2 \<and>
           difficulty ?s3 = difficulty ?s2 \<and> hintCells ?s3 = hintCells ?s2"
    by (rule wrong_move_step) (use 2 assms in simp_all)
  from 3 have g: "\<not> showEndGamePanelOverride ?s3" "\<not> isDisplayGameOver ?s3"
    "coreGameData ?s3 \<noteq> None" "\<not> loading ?s3" "\<not> errorSet ?s3"
    by (simp_all add: swapIgnored_def)
  have t: "turnFailedAttempts ?s3 = 3" using 3 assms(4) by simp
  have gr: "grid ?s3 = cs_grid c" using 3 by simp
  have d: "difficulty ?s3 = difficulty st" using 1 2 3 by simp
  have h: "hintCells ?s3 = hintCells st" using 1 2 3 by simp
  have co: "GameLogic_calculateHintCoordinates (gameLogicRef ?s3) =
     (case bestChild (cs_currentPossibleMoves c) of
        None \<Rightarrow> []
      | Some n \<Rightarrow> (case nd_move n of None \<Rightarrow> [] | Some m \<Rightarrow> [fst m, snd m]))"
    using 3 by (simp add: hint_of_state)
  have i: "difficulty st = Impossible \<longrightarrow> hintCells (autoHintEffect ?s3) = []"
    using d by (simp add: autoHintEffect_def)
  have e: "difficulty st \<noteq> Impossible \<and> gridShown (cs_grid c) \<longrightarrow>
           hintCells (autoHintEffect ?s3) =
             (if GameLogic_calculateHintCoordinates (gameLogicRef ?s3) = [] then hintCells st
              else GameLogic_calculateHintCoordinates (gameLogicRef ?s3))"
    using d g t gr h by (auto simp: autoHintEffect_def Let_def)
  have b: "\<forall>n m. bestChild (cs_currentPossibleMoves c) = Some n \<and> nd_move n = Some m \<longrightarrow>
               GameLogic_calculateHintCoordinates (gameLogicRef ?s3) = [fst m, snd m]"
    using co by simp
  show ?thesis unfolding Let_def using t gr i e b by blast
qed

theorem C2_three_rejected_swaps_witness:
  "\<not> swapIgnored (playing None scenarioLevel) \<and>
   gl_state (gameLogicRef (playing None scenarioLevel)) = Some (freshState scenarioLevel) \<and>
   \<not> cs_isGameOver (freshState scenarioLevel) \<and>
   cs_turnFailedAttempts (freshState scenarioLevel) = 0 \<and>
   areAdjacent (cell 1 0) (cell 1 1) \<and>
   findChild (cs_currentPossibleMoves (freshState scenarioLevel)) (cell 1 0, cell 1 1) = None \<and>
   difficulty (playing None scenarioLevel) \<noteq> Impossible \<and>
   turnFailedAttempts (threeWrongSwaps (playing None scenarioLevel)) = 3 \<and>
   grid (threeWrongSwaps (playing None scenarioLevel)) = scenarioGrid \<and>
   hintCells (autoHintEffect (threeWrongSwaps (playing None scenarioLevel))) = [cell 0 0, cell 0 1]"
proof -
  let ?P = "playing None scenarioLevel"
  let ?c = "freshState scenarioLevel"
  have i: "\<not> swapIgnored ?P" by code_simp
  have s: "gl_state (gameLogicRef ?P) = Some ?c" by code_simp
  have g: "\<not> cs_isGameOver ?c" by code_simp
  have z: "cs_turnFailedAttempts ?c = 0" by code_simp
  have a: "areAdjacent (cell 1 0) (cell 1 1)" by code_simp
  have w: "findChild (cs_currentPossibleMoves ?c) (cell 1 0, cell 1 1) = None" by code_simp
  have d: "difficulty ?P \<noteq> Impossible" by code_simp
  have f: "cs_grid ?c = scenarioGrid" "gridShown (cs_grid ?c)"
    "bestChild (cs_currentPossibleMoves ?c) = Some catsMove"
    "nd_move catsMove = Some (cell 0 0, cell 0 1)"
    by code_simp+
  from C2_three_rejected_swaps_then_hint [OF i s g z a w a w a w] i s g z a w d f
  show ?thesis by (simp add: Let_def threeWrongSwaps_def)
qed

theorem C2_no_hint_on_impossible_after_three:
  "\<not> swapIgnored (playing (Some ''impossible'') scenarioLevel) \<and>
   \<not> success (fst (GameLogic_performSwap (cell 1 0) (cell 1 1)
                    (gameLogicRef (playing (Some ''impossible'') scenarioLevel)))) \<and>
   turnFailedAttempts (threeWrongSwaps (playing (Some ''impossible'') scenarioLevel)) = 3 \<and>
   hintCells (autoHintEffect (threeWrongSwaps (playing (Some ''impossible'') scenarioLevel))) = []"
  by code_simp


end
